theory Spec2Isabelle
  imports Complex_Main "HOL-Library.Log_Nat"
begin

section \<open>Go numerics and formatting\<close>

subsection \<open>float64\<close>

text \<open>
  A finite \<^verbatim>\<open>float64\<close> is modelled by its exact rational value. Every arithmetic
  operation of the source is the exact operation followed by \<open>fl64\<close>, IEEE 754
  round-to-nearest, ties-to-even, at 53 bits of precision with gradual underflow
  (smallest quantum \<open>2^-1074\<close>). Each operation rounds on its own (no fused
  multiply-add, as on amd64). The exponent range is not bounded above and the sign of
  zero is not kept. The inputs are finite: they come from 64-bit integers and from JSON
  numbers. The sums of the formatter stay in the range of float64 unless a list has
  more than \<open>2^900\<close> elements; in the score estimate a value beyond that range can only
  reach the conversion to int, whose result out of range is left open below. Nothing
  proved below depends on the sign of a zero.
\<close>

type_synonym float64 = rat

definition pow2 :: "int \<Rightarrow> rat" where
  "pow2 k = 2 powi k"

definition round_half_even :: "rat \<Rightarrow> int" where
  "round_half_even x =
     (let f = \<lfloor>x\<rfloor>; d = x - of_int f
      in if d < 1 / 2 then f
         else if 1 / 2 < d then f + 1
         else if even f then f else f + 1)"

text \<open>\<open>floorlog2 x\<close> is the \<open>k\<close> with \<open>2^k \<le> x < 2^(k+1)\<close>, for \<open>x > 0\<close>.\<close>

definition floorlog2 :: "rat \<Rightarrow> int" where
  "floorlog2 x =
     (case quotient_of x of (p, q) \<Rightarrow>
        (let k = bitlen p - bitlen q in if pow2 k \<le> x then k else k - 1))"

definition fl64 :: "rat \<Rightarrow> float64" where
  "fl64 x =
     (if x = 0 then 0
      else (let q = max (floorlog2 \<bar>x\<bar> - 52) (- 1074)
            in of_int (round_half_even (x / pow2 q)) * pow2 q))"

definition fadd :: "float64 \<Rightarrow> float64 \<Rightarrow> float64" where
  "fadd x y = fl64 (x + y)"

definition fsub :: "float64 \<Rightarrow> float64 \<Rightarrow> float64" where
  "fsub x y = fl64 (x - y)"

definition fmul :: "float64 \<Rightarrow> float64 \<Rightarrow> float64" where
  "fmul x y = fl64 (x * y)"

text \<open>
  \<open>fdiv\<close> is the quotient by a divisor that is not zero. The source divides by the
  constants 100, 3600000 and 2, where \<open>fdiv\<close> is the whole division, and by the
  converted length of a slice, where the division is \<open>fquo\<close> below.
\<close>

definition fdiv :: "float64 \<Rightarrow> float64 \<Rightarrow> float64" where
  "fdiv x y = fl64 (x / y)"

text \<open>
  The division of the language does not fail on a zero divisor: it gives NaN for
  \<open>0 / 0\<close> and an infinity otherwise, and these values go on through the arithmetic,
  the comparisons and the formatting that follow. An \<open>xfloat\<close> is a float64 that may be
  one of them. (The only divisor of the source that may be zero is the conversion of a
  length, a positive zero.)
\<close>

datatype xfloat = Finite float64 | NaN | PosInf | NegInf

definition fquo :: "float64 \<Rightarrow> float64 \<Rightarrow> xfloat" where
  "fquo x y =
     (if y = 0 then (if x = 0 then NaN else if 0 < x then PosInf else NegInf)
      else Finite (fdiv x y))"

text \<open>\<^verbatim>\<open>x + y\<close> on such values.\<close>

fun xadd :: "xfloat \<Rightarrow> xfloat \<Rightarrow> xfloat" where
  "xadd (Finite x) (Finite y) = Finite (fadd x y)"
| "xadd NaN y = NaN"
| "xadd x NaN = NaN"
| "xadd PosInf NegInf = NaN"
| "xadd NegInf PosInf = NaN"
| "xadd PosInf y = PosInf"
| "xadd x PosInf = PosInf"
| "xadd NegInf y = NegInf"
| "xadd x NegInf = NegInf"

text \<open>\<^verbatim>\<open>x / y\<close> for a divisor that is a positive constant.\<close>

fun xquo :: "xfloat \<Rightarrow> float64 \<Rightarrow> xfloat" where
  "xquo (Finite x) y = fquo x y"
| "xquo NaN y = NaN"
| "xquo PosInf y = PosInf"
| "xquo NegInf y = NegInf"

text \<open>
  The comparisons \<^verbatim>\<open>x >= c\<close>, \<^verbatim>\<open>x > c\<close> and \<^verbatim>\<open>x == c\<close> with a constant: every
  comparison with NaN is false.
\<close>

fun xge :: "xfloat \<Rightarrow> float64 \<Rightarrow> bool" where
  "xge (Finite x) c = (x \<ge> c)"
| "xge NaN c = False"
| "xge PosInf c = True"
| "xge NegInf c = False"

fun xgt :: "xfloat \<Rightarrow> float64 \<Rightarrow> bool" where
  "xgt (Finite x) c = (x > c)"
| "xgt NaN c = False"
| "xgt PosInf c = True"
| "xgt NegInf c = False"

fun xeq :: "xfloat \<Rightarrow> float64 \<Rightarrow> bool" where
  "xeq (Finite x) c = (x = c)"
| "xeq NaN c = False"
| "xeq PosInf c = False"
| "xeq NegInf c = False"

text \<open>The conversion \<^verbatim>\<open>float64(n)\<close> of an integer.\<close>

definition float64_of_int :: "int \<Rightarrow> float64" where
  "float64_of_int n = fl64 (of_int n)"

text \<open>
  The conversion \<^verbatim>\<open>int(x)\<close> of a float discards the fraction (truncation towards
  zero). When the truncated value does not fit 64 bits the Go specification leaves the
  result to the implementation: the function \<open>oor\<close> stands for that choice.
\<close>

definition go_int :: "(float64 \<Rightarrow> int) \<Rightarrow> float64 \<Rightarrow> int" where
  "go_int oor x =
     (let t = (if 0 \<le> x then \<lfloor>x\<rfloor> else \<lceil>x\<rceil>)
      in if - (2 ^ 63) \<le> t \<and> t < 2 ^ 63 then t else oor x)"

text \<open>64-bit signed wrap-around of an integer operation.\<close>

definition wrap64 :: "int \<Rightarrow> int" where
  "wrap64 x = (x + 2 ^ 63) mod 2 ^ 64 - 2 ^ 63"

subsection \<open>The verbs of fmt.Sprintf used by the source\<close>

fun digits10 :: "nat \<Rightarrow> string" where
  "digits10 n =
     (if n < 10 then [''0123456789'' ! n]
      else digits10 (n div 10) @ [''0123456789'' ! (n mod 10)])"

text \<open>\<^verbatim>\<open>%d\<close>\<close>

definition fmt_d :: "int \<Rightarrow> string" where
  "fmt_d n = (if n < 0 then ''-'' @ digits10 (nat (- n)) else digits10 (nat n))"

text \<open>
  \<^verbatim>\<open>%.pf\<close>: the exact value rounded to \<open>p\<close> decimals, ties to even, as strconv does.
\<close>

definition fmt_f :: "nat \<Rightarrow> float64 \<Rightarrow> string" where
  "fmt_f p x =
     (let n = nat (round_half_even (\<bar>x\<bar> * 10 ^ p));
          ip = n div 10 ^ p;
          fp = digits10 (n mod 10 ^ p)
      in (if x < 0 then ''-'' else '''') @ digits10 ip @
         (if p = 0 then '''' else ''.'' @ replicate (p - length fp) (CHR ''0'') @ fp))"

text \<open>The same verb on a value that may not be finite.\<close>

fun fmt_xf :: "nat \<Rightarrow> xfloat \<Rightarrow> string" where
  "fmt_xf p (Finite x) = fmt_f p x"
| "fmt_xf p NaN = ''NaN''"
| "fmt_xf p PosInf = ''+Inf''"
| "fmt_xf p NegInf = ''-Inf''"

subsection \<open>Text constants\<close>

text \<open>Go strings are byte strings; the non-ASCII characters are their UTF-8 bytes.\<close>

definition NL :: string where "NL = [CHR 0x0A]"

definition bullet :: string where \<comment> \<open>U+2022\<close>
  "bullet = [CHR 0xE2, CHR 0x80, CHR 0xA2]"
definition e_sunrise :: string where \<comment> \<open>U+1F305\<close>
  "e_sunrise = [CHR 0xF0, CHR 0x9F, CHR 0x8C, CHR 0x85]"
definition e_rocket :: string where \<comment> \<open>U+1F680\<close>
  "e_rocket = [CHR 0xF0, CHR 0x9F, CHR 0x9A, CHR 0x80]"
definition e_chart :: string where \<comment> \<open>U+1F4CA\<close>
  "e_chart = [CHR 0xF0, CHR 0x9F, CHR 0x93, CHR 0x8A]"
definition e_busts :: string where \<comment> \<open>U+1F465\<close>
  "e_busts = [CHR 0xF0, CHR 0x9F, CHR 0x91, CHR 0xA5]"
definition e_green :: string where \<comment> \<open>U+1F7E2\<close>
  "e_green = [CHR 0xF0, CHR 0x9F, CHR 0x9F, CHR 0xA2]"
definition e_yellow :: string where \<comment> \<open>U+1F7E1\<close>
  "e_yellow = [CHR 0xF0, CHR 0x9F, CHR 0x9F, CHR 0xA1]"
definition e_orange :: string where \<comment> \<open>U+1F7E0\<close>
  "e_orange = [CHR 0xF0, CHR 0x9F, CHR 0x9F, CHR 0xA0]"
definition e_red :: string where \<comment> \<open>U+1F534\<close>
  "e_red = [CHR 0xF0, CHR 0x9F, CHR 0x94, CHR 0xB4]"
definition e_sleeping :: string where \<comment> \<open>U+1F634\<close>
  "e_sleeping = [CHR 0xF0, CHR 0x9F, CHR 0x98, CHR 0xB4]"
definition e_smiling :: string where \<comment> \<open>U+1F60A\<close>
  "e_smiling = [CHR 0xF0, CHR 0x9F, CHR 0x98, CHR 0x8A]"
definition e_neutral :: string where \<comment> \<open>U+1F610\<close>
  "e_neutral = [CHR 0xF0, CHR 0x9F, CHR 0x98, CHR 0x90]"
definition e_dizzy :: string where \<comment> \<open>U+1F635\<close>
  "e_dizzy = [CHR 0xF0, CHR 0x9F, CHR 0x98, CHR 0xB5]"
definition e_fire :: string where \<comment> \<open>U+1F525\<close>
  "e_fire = [CHR 0xF0, CHR 0x9F, CHR 0x94, CHR 0xA5]"
definition e_biceps :: string where \<comment> \<open>U+1F4AA\<close>
  "e_biceps = [CHR 0xF0, CHR 0x9F, CHR 0x92, CHR 0xAA]"
definition e_voltage :: string where \<comment> \<open>U+26A1\<close>
  "e_voltage = [CHR 0xE2, CHR 0x9A, CHR 0xA1]"
definition e_coffee :: string where \<comment> \<open>U+2615\<close>
  "e_coffee = [CHR 0xE2, CHR 0x98, CHR 0x95]"
definition e_sos :: string where \<comment> \<open>U+1F198\<close>
  "e_sos = [CHR 0xF0, CHR 0x9F, CHR 0x86, CHR 0x98]"
definition e_camel :: string where \<comment> \<open>U+1F42A\<close>
  "e_camel = [CHR 0xF0, CHR 0x9F, CHR 0x90, CHR 0xAA]"
definition e_popper :: string where \<comment> \<open>U+1F389\<close>
  "e_popper = [CHR 0xF0, CHR 0x9F, CHR 0x8E, CHR 0x89]"
definition e_star :: string where \<comment> \<open>U+1F31F\<close>
  "e_star = [CHR 0xF0, CHR 0x9F, CHR 0x8C, CHR 0x9F]"
definition e_lotus :: string where \<comment> \<open>U+1F9D8\<close>
  "e_lotus = [CHR 0xF0, CHR 0x9F, CHR 0xA7, CHR 0x98]"
definition e_bulb :: string where \<comment> \<open>U+1F4A1\<close>
  "e_bulb = [CHR 0xF0, CHR 0x9F, CHR 0x92, CHR 0xA1]"

section \<open>The message formatter (internal/whoop/client.go)\<close>

text \<open>
  A team row is a \<^verbatim>\<open>map[string]interface{}\<close>. The dynamic values that reach the
  formatter are nil, strings, int64 and float64; \<open>VOther\<close> stands for a value of any
  other dynamic type.
\<close>

datatype val = VNil | VString string | VInt64 int | VFloat64 float64 | VOther

type_synonym row = "string \<rightharpoonup> val"

text \<open>The guard \<^verbatim>\<open>v, ok := data[key]; ok && v != nil\<close>.\<close>

definition present :: "row \<Rightarrow> string \<Rightarrow> bool" where
  "present data key = (case data key of None \<Rightarrow> False | Some v \<Rightarrow> v \<noteq> VNil)"

definition getString :: "row \<Rightarrow> string \<Rightarrow> string" where
  "getString data key =
     (if present data key
      then (case the (data key) of VString str \<Rightarrow> str | _ \<Rightarrow> '''')
      else '''')"

definition getInt64 :: "row \<Rightarrow> string \<Rightarrow> int" where
  "getInt64 data key =
     (if present data key
      then (case the (data key) of VInt64 num \<Rightarrow> num | _ \<Rightarrow> 0)
      else 0)"

definition getFloat64 :: "row \<Rightarrow> string \<Rightarrow> float64" where
  "getFloat64 data key =
     (if present data key
      then (case the (data key) of VFloat64 num \<Rightarrow> num | _ \<Rightarrow> 0)
      else 0)"

definition getRecoveryEmoji :: "int \<Rightarrow> string" where
  "getRecoveryEmoji score =
     (if score \<ge> 75 then e_green
      else if score \<ge> 50 then e_yellow
      else if score \<ge> 25 then e_orange
      else e_red)"

definition getSleepEmoji :: "int \<Rightarrow> string" where
  "getSleepEmoji score =
     (if score \<ge> 80 then e_sleeping
      else if score \<ge> 60 then e_smiling
      else if score \<ge> 40 then e_neutral
      else e_dizzy)"

text \<open>
  The two averages are quotients by the length of a slice: the functions that take
  them are written for every value that such a quotient can be.
\<close>

definition getTeamMoodEmoji :: "xfloat \<Rightarrow> xfloat \<Rightarrow> string" where
  "getTeamMoodEmoji avgRecovery avgSleep =
     (let avgScore = xquo (xadd avgRecovery avgSleep) 2
      in if xge avgScore 75 then e_fire @ '' Team is ON FIRE!''
         else if xge avgScore 60 then e_biceps @ '' Team is feeling strong!''
         else if xge avgScore 45 then e_voltage @ '' Team is ready to go!''
         else if xge avgScore 30 then e_coffee @ '' Team needs more coffee...''
         else e_sos @ '' Team needs extra care today!'')"

definition formatScore :: "xfloat \<Rightarrow> string" where
  "formatScore score = (if xeq score 0 then ''N/A'' else fmt_xf 0 score @ ''%'')"

record TeamSummary =
  avgRecovery :: string
  avgSleep :: string
  totalSleep :: string
  emoji :: string
  recoveryNum :: xfloat
  sleepNum :: xfloat

text \<open>
  The type assertion \<^verbatim>\<open>v.(int64)\<close> behind the presence guard, as the three blocks of
  the first loop of \<^verbatim>\<open>calculateTeamSummary\<close> write it.
\<close>

definition asInt64 :: "row \<Rightarrow> string \<Rightarrow> int option" where
  "asInt64 userData key =
     (if present userData key
      then (case the (userData key) of VInt64 n \<Rightarrow> Some n | _ \<Rightarrow> None)
      else None)"

text \<open>
  The first loop: the accumulators are the two slices and the running total of hours.
\<close>

fun collect :: "row list \<Rightarrow> float64 list \<times> float64 list \<times> float64
    \<Rightarrow> float64 list \<times> float64 list \<times> float64" where
  "collect [] acc = acc"
| "collect (userData # rest) (recoveryScores, sleepScores, totalSleepHours) =
     collect rest
       ((case asInt64 userData ''recovery_score'' of
           Some score \<Rightarrow> recoveryScores @ [float64_of_int score]
         | None \<Rightarrow> recoveryScores),
        (case asInt64 userData ''sleep_score'' of
           Some score \<Rightarrow> sleepScores @ [float64_of_int score]
         | None \<Rightarrow> sleepScores),
        (case asInt64 userData ''duration_ms'' of
           Some duration \<Rightarrow>
             fadd totalSleepHours (fdiv (float64_of_int duration) (1000 * 60 * 60))
         | None \<Rightarrow> totalSleepHours))"

text \<open>
  The average of a slice, as \<^verbatim>\<open>calculateTeamSummary\<close> writes it twice: the variable
  starts at \<open>0.0\<close>; behind the guard on the length, the sum loop runs from \<open>0.0\<close>, left
  to right, and the sum is divided by the converted length.
\<close>

definition average :: "float64 list \<Rightarrow> xfloat" where
  "average scores =
     (if length scores > 0
      then fquo (foldl fadd 0 scores) (float64_of_int (int (length scores)))
      else Finite 0)"

definition calculateTeamSummary :: "row list \<Rightarrow> TeamSummary" where
  "calculateTeamSummary teamData =
     (case collect teamData ([], [], 0) of
        (recoveryScores, sleepScores, totalSleepHours) \<Rightarrow>
          (let avgR = average recoveryScores;
               avgS = average sleepScores
           in \<lparr> avgRecovery = formatScore avgR,
                avgSleep = formatScore avgS,
                totalSleep = fmt_f 1 totalSleepHours @ ''h total'',
                emoji = getTeamMoodEmoji avgR avgS,
                recoveryNum = avgR,
                sleepNum = avgS \<rparr>))"

text \<open>\<^verbatim>\<open>strings.Join\<close>\<close>

fun join :: "string list \<Rightarrow> string \<Rightarrow> string" where
  "join [] sep = ''''"
| "join [p] sep = p"
| "join (p # ps) sep = p @ sep @ join ps sep"

definition formatUserData :: "row \<Rightarrow> string" where
  "formatUserData userData =
     (let username = getString userData ''username'';
          realName = getString userData ''real_name'';
          displayName = (if realName = '''' then username else realName);
          parts1 =
            (if present userData ''recovery_score''
             then (let score = getInt64 userData ''recovery_score'';
                       hrv = getInt64 userData ''hrv'';
                       rhr = getInt64 userData ''rhr'';
                       recoveryText =
                         ''Recovery: '' @ getRecoveryEmoji score @ '' '' @ fmt_d score @ ''%''
                   in [recoveryText @
                       (if hrv > 0 \<and> rhr > 0
                        then '' (HRV: '' @ fmt_f 1 (float64_of_int hrv) @ ''ms, RHR: '' @
                             fmt_d rhr @ ''bpm)''
                        else '''')])
             else []);
          parts2 =
            (if present userData ''sleep_score''
             then (let score = getInt64 userData ''sleep_score'';
                       durationMS = getInt64 userData ''duration_ms'';
                       efficiency = getFloat64 userData ''efficiency'';
                       sleepHours = fdiv (float64_of_int durationMS) (1000 * 60 * 60);
                       sleepText =
                         ''Sleep: '' @ getSleepEmoji score @ '' '' @ fmt_d score @ ''% ('' @
                         fmt_f 1 sleepHours @ ''h''
                   in parts1 @
                      [sleepText @
                       (if efficiency > 0 then '', '' @ fmt_f 0 efficiency @ ''% eff'' else '''') @
                       '')''])
             else parts1);
          parts = (if length parts2 = 0 then parts2 @ [''No recent data '' @ e_chart] else parts2);
          dataText = join parts ('' '' @ bullet @ '' '')
      in bullet @ '' **'' @ displayName @ '':** '' @ dataText)"

text \<open>\<^verbatim>\<open>time.Now().Weekday()\<close> is an input of the footer.\<close>

datatype weekday = Sunday | Monday | Tuesday | Wednesday | Thursday | Friday | Saturday

definition generateMotivationalFooter :: "weekday \<Rightarrow> TeamSummary \<Rightarrow> string" where
  "generateMotivationalFooter weekday summary =
     (let dayMessage =
            (case weekday of
               Monday \<Rightarrow> ''Let's crush this Monday! '' @ e_biceps
             | Tuesday \<Rightarrow> ''Tuesday momentum building! '' @ e_rocket
             | Wednesday \<Rightarrow> ''Hump day hustle! '' @ e_camel
             | Thursday \<Rightarrow> ''Thursday thunder! '' @ e_voltage
             | Friday \<Rightarrow> ''Friday finisher! '' @ e_popper
             | Saturday \<Rightarrow> ''Saturday vibes! '' @ e_star
             | Sunday \<Rightarrow> ''Sunday reset! '' @ e_lotus);
          performanceMsg =
            (if xge (recoveryNum summary) 70
             then ''The team is well-recovered and ready for anything!''
             else if xge (recoveryNum summary) 50
             then ''Good recovery levels - steady as she goes!''
             else if xgt (recoveryNum summary) 0
             then ''Take it easy today and focus on recovery!''
             else '''')
      in e_star @ '' '' @ dayMessage @ '' '' @ performanceMsg @ NL @ NL @ ''_'' @ e_bulb @
         '' Pro tip: Use `/whoop-status` to check individual stats or `/morning-report` for a fresh update!_'')"

definition noDataMessage :: string where
  "noDataMessage =
     e_sunrise @ '' *Good Morning Team!* '' @ e_sunrise @ NL @ NL @
     ''No WHOOP data available yet. Connect your WHOOP accounts with `/connect-whoop` to see your daily stats! '' @
     e_rocket"

definition standupHeader :: string where
  "standupHeader =
     e_sunrise @ '' *Good Morning Team! Here's how everyone's feeling today:* '' @ e_sunrise @
     NL @ NL"

fun userLines :: "row list \<Rightarrow> string" where
  "userLines [] = ''''"
| "userLines (userData # rest) = formatUserData userData @ NL @ userLines rest"

definition FormatMorningStandup :: "weekday \<Rightarrow> row list \<Rightarrow> string" where
  "FormatMorningStandup weekday teamData =
     (if length teamData = 0 then noDataMessage
      else (let teamSummary = calculateTeamSummary teamData
            in standupHeader @
               e_chart @ '' *Team Overview:* '' @ emoji teamSummary @ NL @
               bullet @ '' Average Recovery: '' @ avgRecovery teamSummary @ NL @
               bullet @ '' Average Sleep Score: '' @ avgSleep teamSummary @ NL @
               bullet @ '' Team Sleep Hours: '' @ totalSleep teamSummary @ NL @ NL @
               e_busts @ '' *Individual Stats:*'' @ NL @
               userLines teamData @
               NL @ generateMotivationalFooter weekday teamSummary))"

section \<open>Time\<close>

text \<open>
  A \<^verbatim>\<open>time.Time\<close> is the number of nanoseconds since Go's zero time, on one clock; a
  \<^verbatim>\<open>time.Duration\<close> is a 64-bit count of nanoseconds. \<^verbatim>\<open>Time.Sub\<close> saturates at the
  largest and smallest duration, arithmetic on durations wraps.
\<close>

type_synonym time = int

definition Second :: int where "Second = 1000000000"

definition Hour :: int where "Hour = 60 * (60 * Second)"

definition maxDuration :: int where "maxDuration = 2 ^ 63 - 1"

definition minDuration :: int where "minDuration = - (2 ^ 63)"

definition time_Sub :: "time \<Rightarrow> time \<Rightarrow> int" where
  "time_Sub t u =
     (let d = t - u
      in if d > maxDuration then maxDuration
         else if d < minDuration then minDuration
         else d)"

definition time_Add :: "time \<Rightarrow> int \<Rightarrow> time" where
  "time_Add t d = t + d"

definition time_Truncate :: "time \<Rightarrow> int \<Rightarrow> time" where
  "time_Truncate t d = (if d \<le> 0 then t else t - t mod d)"

text \<open>
  A timestamp of the provider comes with a zone offset and keeps it: a \<open>ztime\<close> is the
  instant and the offset, in seconds east of UTC. \<^verbatim>\<open>Truncate\<close> rounds the instant
  down, counted from the zero time, and leaves the offset.
\<close>

type_synonym ztime = "time \<times> int"

definition ztime_Truncate :: "ztime \<Rightarrow> int \<Rightarrow> ztime" where
  "ztime_Truncate t d = (time_Truncate (fst t) d, snd t)"

text \<open>
  \<^verbatim>\<open>AddDate\<close> is calendar arithmetic in the location of the process: its result
  depends on the clock changes of that location, and is read from the outside (the
  field \<open>addDays\<close> below).
\<close>

section \<open>Data model (internal/models, internal/whoop/client.go)\<close>

record WHOOPConnection =
  ID :: int
  UserID :: string
  WHOOPUserID :: string
  AccessToken :: string
  RefreshToken :: string
  ExpiresAt :: time
  ConnectedAt :: time
  Active :: bool

record WHOOPRecovery =
  rec_ID :: int
  rec_UserID :: string
  rec_WHOOPUserID :: string
  rec_Date :: ztime
  rec_Score :: int
  rec_HRV :: float64
  rec_RHR :: int
  rec_CreatedAt :: time

record WHOOPSleep =
  slp_ID :: int
  slp_UserID :: string
  slp_WHOOPUserID :: string
  slp_Date :: ztime
  slp_DurationMS :: int
  slp_Efficiency :: float64
  slp_Score :: int
  slp_StagesDeepMS :: int
  slp_StagesREMS :: int
  slp_StagesLightMS :: int
  slp_StagesWakeMS :: int
  slp_CreatedAt :: time

record TokenResponse =
  tok_AccessToken :: string
  tok_TokenType :: string
  tok_ExpiresIn :: int
  tok_RefreshToken :: string
  tok_Scope :: string
  tok_UserID :: string

record UserProfile =
  prof_UserID :: int
  prof_Email :: string
  prof_FirstName :: string
  prof_LastName :: string

text \<open>Of the provider's records, the fields that the service reads.\<close>

record RecoveryData =
  rd_UserID :: int
  rd_CreatedAt :: ztime
  rd_RecoveryScore :: float64
  rd_HRVRmssd :: float64
  rd_RestingHR :: float64

record SleepData =
  sd_UserID :: int
  sd_End :: ztime
  sd_TotalAwakeTimeMS :: int
  sd_TotalLightSleepMS :: int
  sd_TotalSlowWaveSleepMS :: int
  sd_TotalRemSleepMS :: int
  sd_SleepEfficiencyPercentage :: float64
  sd_SleepScore :: int

subsection \<open>Errors and log lines\<close>

text \<open>
  \<open>dberr\<close>: what \<^verbatim>\<open>database/sql\<close> returns; \<open>apierr\<close>: the three failures of every
  client method (transport, status other than 200 with its body, undecodable body);
  \<open>error\<close>: one constructor for each \<^verbatim>\<open>fmt.Errorf\<close> of the service.
\<close>

datatype dberr = ErrNoRows | ErrDriver string

text \<open>
  What can go wrong while the rows of a successful query are read: the scan of row
  number \<open>k\<close> (counted from 0) returns an error, or \<^verbatim>\<open>rows.Next\<close> reports no further
  row after \<open>k\<close> rows because the driver failed, with an error that only \<^verbatim>\<open>rows.Err\<close>
  would show.
\<close>

datatype rowsfault = ScanFails nat dberr | NextFails nat

datatype apierr = RequestFailed string | BadStatus int string | DecodeFailed string

datatype error =
    InvalidStateParameter
  | InvalidStateFormat
  | ExchangeFailed apierr
  | ProfileFailed apierr
  | StoreConnectionFailed dberr
  | RefreshFailed string apierr
  | UpdateConnectionFailed dberr
  | NoConnection string dberr
  | SyncRefreshFailed error
  | GetRecoveryFailed apierr
  | GetSleepFailed apierr
  | GetConnectionsFailed dberr

datatype logline =
    LogConnected string int
  | LogRefreshing string
  | LogRecoveryFailed string error
  | LogSleepFailed string error
  | LogStoreRecoveryFailed string dberr
  | LogStoreSleepFailed string dberr
  | LogSleepEstimated int float64 float64
  | LogSyncing nat
  | LogSyncFailed string error
  | LogCompleted

text \<open>What the process does to the outside, in order: provider requests and log lines.\<close>

datatype event =
    ExchangeRequest string
  | ProfileRequest string
  | RefreshRequest string
  | RecoveryRequest string time time
  | SleepRequest string time time
  | LogLine logline

section \<open>The store and the outside world\<close>

text \<open>
  The state is the three WHOOP tables with their AUTOINCREMENT counters, the number
  \<open>tick\<close> of interactions with the outside so far (clock readings, SQL statements,
  provider requests, random reads) and the trace of events.
\<close>

record world =
  whoop_connections :: "WHOOPConnection list"
  whoop_recovery :: "WHOOPRecovery list"
  whoop_sleep :: "WHOOPSleep list"
  seq_connections :: int
  seq_recovery :: int
  seq_sleep :: int
  tick :: nat
  trace :: "event list"

text \<open>
  The outside is a schedule: what the \<open>n\<close>-th interaction meets. Every behaviour of the
  clock, the SQLite driver, the provider and the random source is one such schedule.
  \<open>db_fault\<close> is the error that \<^verbatim>\<open>db.Exec\<close>, \<^verbatim>\<open>db.Query\<close> or the scan of
  \<^verbatim>\<open>db.QueryRow\<close> returns, \<open>rows_fault\<close> what the reading of the rows of a query meets,
  \<open>addDays t days\<close> the result of \<^verbatim>\<open>t.AddDate(0, 0, days)\<close> in the location of the
  process.
\<close>

record env =
  clock :: "nat \<Rightarrow> time"
  addDays :: "time \<Rightarrow> int \<Rightarrow> time"
  db_fault :: "nat \<Rightarrow> dberr option"
  rows_fault :: "nat \<Rightarrow> rowsfault option"
  exchange_resp :: "nat \<Rightarrow> string \<Rightarrow> apierr + TokenResponse"
  profile_resp :: "nat \<Rightarrow> string \<Rightarrow> apierr + UserProfile"
  refresh_resp :: "nat \<Rightarrow> string \<Rightarrow> apierr + TokenResponse"
  recovery_resp :: "nat \<Rightarrow> string \<Rightarrow> time \<Rightarrow> time \<Rightarrow> apierr + RecoveryData list"
  sleep_resp :: "nat \<Rightarrow> string \<Rightarrow> time \<Rightarrow> time \<Rightarrow> apierr + SleepData list"
  random :: "nat \<Rightarrow> nat \<Rightarrow> nat"
  conv_oor :: "float64 \<Rightarrow> int"

definition emptyWorld :: world where
  "emptyWorld =
     \<lparr> whoop_connections = [], whoop_recovery = [], whoop_sleep = [],
       seq_connections = 0, seq_recovery = 0, seq_sleep = 0, tick = 0, trace = [] \<rparr>"

definition step :: "world \<Rightarrow> world" where
  "step w = w\<lparr>tick := Suc (tick w)\<rparr>"

definition emit :: "event \<Rightarrow> world \<Rightarrow> world" where
  "emit ev w = w\<lparr>trace := trace w @ [ev]\<rparr>"

definition time_Now :: "env \<Rightarrow> world \<Rightarrow> time \<times> world" where
  "time_Now e w = (clock e (tick w), step w)"

subsection \<open>The SQL statements (internal/database)\<close>

text \<open>
  \<^verbatim>\<open>db.Exec\<close>: the driver fails and the table is untouched, or the statement runs.
\<close>

definition db_Exec :: "env \<Rightarrow> (world \<Rightarrow> world) \<Rightarrow> world \<Rightarrow> dberr option \<times> world" where
  "db_Exec e stmt w =
     (case db_fault e (tick w) of
        Some err \<Rightarrow> (Some err, step w)
      | None \<Rightarrow> (None, step (stmt w)))"

text \<open>
  \<^verbatim>\<open>INSERT OR REPLACE\<close> into a table with \<^verbatim>\<open>UNIQUE(user_id)\<close>: the rows in conflict
  are deleted, the new row gets the next id.
\<close>

definition insert_or_replace_connection :: "WHOOPConnection \<Rightarrow> world \<Rightarrow> world" where
  "insert_or_replace_connection conn w =
     (let newid = seq_connections w + 1
      in w\<lparr> whoop_connections :=
               filter (\<lambda>r. UserID r \<noteq> UserID conn) (whoop_connections w) @ [conn\<lparr>ID := newid\<rparr>],
             seq_connections := newid \<rparr>)"

definition UpsertWHOOPConnection :: "env \<Rightarrow> WHOOPConnection \<Rightarrow> world \<Rightarrow> dberr option \<times> world" where
  "UpsertWHOOPConnection e conn w = db_Exec e (insert_or_replace_connection conn) w"

text \<open>\<^verbatim>\<open>SELECT ... WHERE user_id = ? AND active = 1\<close>, first row.\<close>

definition GetWHOOPConnection :: "env \<Rightarrow> string \<Rightarrow> world \<Rightarrow> (dberr + WHOOPConnection) \<times> world" where
  "GetWHOOPConnection e userID w =
     (case db_fault e (tick w) of
        Some err \<Rightarrow> (Inl err, step w)
      | None \<Rightarrow>
          (case find (\<lambda>r. UserID r = userID \<and> Active r) (whoop_connections w) of
             None \<Rightarrow> (Inl ErrNoRows, step w)
           | Some conn \<Rightarrow> (Inr conn, step w)))"

text \<open>
  \<^verbatim>\<open>SELECT ... WHERE active = 1\<close> and the loop over its rows. \<open>scanRows\<close> is the loop:
  \<open>i\<close> is the number of rows read so far, \<open>connections\<close> the slice built so far. When
  \<^verbatim>\<open>rows.Next\<close> reports no further row the loop ends and the slice is returned with a
  nil error, whether the rows are exhausted or the driver failed: the function does not
  call \<^verbatim>\<open>rows.Err\<close>. When a scan fails, its error is returned.
\<close>

fun scanRows :: "rowsfault option \<Rightarrow> nat \<Rightarrow> WHOOPConnection list \<Rightarrow> WHOOPConnection list
    \<Rightarrow> dberr + WHOOPConnection list" where
  "scanRows fault i [] connections = Inr connections"
| "scanRows fault i (conn # rest) connections =
     (if fault = Some (NextFails i) then Inr connections
      else (case fault of
              Some (ScanFails k err) \<Rightarrow>
                if k = i then Inl err else scanRows fault (Suc i) rest (connections @ [conn])
            | _ \<Rightarrow> scanRows fault (Suc i) rest (connections @ [conn])))"

definition GetAllActiveWHOOPConnections :: "env \<Rightarrow> world \<Rightarrow> (dberr + WHOOPConnection list) \<times> world" where
  "GetAllActiveWHOOPConnections e w =
     (case db_fault e (tick w) of
        Some err \<Rightarrow> (Inl err, step w)
      | None \<Rightarrow>
          (scanRows (rows_fault e (tick w)) 0 (filter Active (whoop_connections w)) [], step w))"

text \<open>\<^verbatim>\<open>UPDATE whoop_connections SET active = 0 WHERE user_id = ?\<close>\<close>

definition deactivate_rows :: "string \<Rightarrow> world \<Rightarrow> world" where
  "deactivate_rows userID w =
     w\<lparr> whoop_connections :=
          map (\<lambda>r. if UserID r = userID then r\<lparr>Active := False\<rparr> else r) (whoop_connections w) \<rparr>"

definition DeactivateWHOOPConnection :: "env \<Rightarrow> string \<Rightarrow> world \<Rightarrow> dberr option \<times> world" where
  "DeactivateWHOOPConnection e userID w = db_Exec e (deactivate_rows userID) w"

text \<open>
  \<^verbatim>\<open>INSERT OR REPLACE\<close> into a table with \<^verbatim>\<open>UNIQUE(user_id, date)\<close>. The driver
  stores a \<^verbatim>\<open>time.Time\<close> as the text of its wall clock followed by its offset, and the
  constraint compares these texts: two dates are in conflict exactly when they agree in
  the instant and in the offset.
\<close>

definition insert_or_replace_recovery :: "WHOOPRecovery \<Rightarrow> world \<Rightarrow> world" where
  "insert_or_replace_recovery recovery w =
     (let newid = seq_recovery w + 1
      in w\<lparr> whoop_recovery :=
               filter (\<lambda>r. \<not> (rec_UserID r = rec_UserID recovery \<and> rec_Date r = rec_Date recovery))
                 (whoop_recovery w) @ [recovery\<lparr>rec_ID := newid\<rparr>],
             seq_recovery := newid \<rparr>)"

definition UpsertWHOOPRecovery :: "env \<Rightarrow> WHOOPRecovery \<Rightarrow> world \<Rightarrow> dberr option \<times> world" where
  "UpsertWHOOPRecovery e recovery w = db_Exec e (insert_or_replace_recovery recovery) w"

definition insert_or_replace_sleep :: "WHOOPSleep \<Rightarrow> world \<Rightarrow> world" where
  "insert_or_replace_sleep sleep w =
     (let newid = seq_sleep w + 1
      in w\<lparr> whoop_sleep :=
               filter (\<lambda>r. \<not> (slp_UserID r = slp_UserID sleep \<and> slp_Date r = slp_Date sleep))
                 (whoop_sleep w) @ [sleep\<lparr>slp_ID := newid\<rparr>],
             seq_sleep := newid \<rparr>)"

definition UpsertWHOOPSleep :: "env \<Rightarrow> WHOOPSleep \<Rightarrow> world \<Rightarrow> dberr option \<times> world" where
  "UpsertWHOOPSleep e sleep w = db_Exec e (insert_or_replace_sleep sleep) w"

subsection \<open>The provider client (internal/whoop/client.go)\<close>

text \<open>
  Each method sends one request and returns what the provider answers: the answer is
  the outcome of the HTTP exchange and of the decoding of its body. (The debug line
  that \<^verbatim>\<open>ExchangeCodeForToken\<close> prints to the standard output is left out.)
\<close>

definition ExchangeCodeForToken :: "env \<Rightarrow> string \<Rightarrow> world \<Rightarrow> (apierr + TokenResponse) \<times> world" where
  "ExchangeCodeForToken e code w =
     (exchange_resp e (tick w) code, step (emit (ExchangeRequest code) w))"

definition GetUserProfile :: "env \<Rightarrow> string \<Rightarrow> world \<Rightarrow> (apierr + UserProfile) \<times> world" where
  "GetUserProfile e accessToken w =
     (profile_resp e (tick w) accessToken, step (emit (ProfileRequest accessToken) w))"

definition RefreshAccessToken :: "env \<Rightarrow> string \<Rightarrow> world \<Rightarrow> (apierr + TokenResponse) \<times> world" where
  "RefreshAccessToken e refreshToken w =
     (refresh_resp e (tick w) refreshToken, step (emit (RefreshRequest refreshToken) w))"

definition GetRecovery :: "env \<Rightarrow> string \<Rightarrow> time \<Rightarrow> time \<Rightarrow> world
    \<Rightarrow> (apierr + RecoveryData list) \<times> world" where
  "GetRecovery e accessToken start endt w =
     (recovery_resp e (tick w) accessToken start endt,
      step (emit (RecoveryRequest accessToken start endt) w))"

definition GetSleep :: "env \<Rightarrow> string \<Rightarrow> time \<Rightarrow> time \<Rightarrow> world
    \<Rightarrow> (apierr + SleepData list) \<times> world" where
  "GetSleep e accessToken start endt w =
     (sleep_resp e (tick w) accessToken start endt,
      step (emit (SleepRequest accessToken start endt) w))"

section \<open>The service (internal/whoop/service.go)\<close>

subsection \<open>The OAuth state\<close>

text \<open>\<^verbatim>\<open>hex.EncodeToString\<close> of bytes.\<close>

definition hexdigit :: "nat \<Rightarrow> char" where
  "hexdigit n = ''0123456789abcdef'' ! (n mod 16)"

definition EncodeToString :: "nat list \<Rightarrow> string" where
  "EncodeToString bytes = concat (map (\<lambda>b. [hexdigit (b div 16), hexdigit b]) bytes)"

text \<open>\<^verbatim>\<open>GenerateState\<close>: sixteen bytes read from the random source, in hex.\<close>

definition GenerateState :: "env \<Rightarrow> world \<Rightarrow> string \<times> world" where
  "GenerateState e w =
     (EncodeToString (map (\<lambda>i. random e (tick w) i mod 256) [0..<16]), step w)"

text \<open>
  \<^verbatim>\<open>url.QueryEscape\<close> and the URL of the client's \<^verbatim>\<open>GetAuthURL\<close>: the parameters in
  the order of their keys.
\<close>

definition unreserved :: "char \<Rightarrow> bool" where
  "unreserved c =
     (c \<in> set ''ABCDEFGHIJKLMNOPQRSTUVWXYZabcdefghijklmnopqrstuvwxyz0123456789-_.~'')"

definition QueryEscape :: "string \<Rightarrow> string" where
  "QueryEscape s =
     concat (map (\<lambda>c. if unreserved c then [c]
                       else if c = CHR '' '' then ''+''
                       else [CHR ''%'', ''0123456789ABCDEF'' ! (of_char c div 16),
                             ''0123456789ABCDEF'' ! (of_char c mod 16)]) s)"

record Client =
  clientID :: string
  clientSecret :: string
  redirectURL :: string

definition AuthURL :: string where
  "AuthURL = ''https://api.prod.whoop.com/oauth/oauth2/auth''"

definition Client_GetAuthURL :: "Client \<Rightarrow> string \<Rightarrow> string" where
  "Client_GetAuthURL c state =
     AuthURL @ ''?'' @
     ''client_id='' @ QueryEscape (clientID c) @
     ''&redirect_uri='' @ QueryEscape (redirectURL c) @
     ''&response_type=code'' @
     ''&scope='' @ QueryEscape ''read:recovery read:sleep read:profile read:workout'' @
     ''&state='' @ QueryEscape state"

text \<open>The state that \<^verbatim>\<open>GetAuthURL\<close> builds with \<^verbatim>\<open>Sprintf("%s:%s", ...)\<close>.\<close>

definition authState :: "env \<Rightarrow> string \<Rightarrow> world \<Rightarrow> string \<times> world" where
  "authState e userID w =
     (case GenerateState e w of (rnd, w1) \<Rightarrow> (userID @ '':'' @ rnd, w1))"

definition GetAuthURL :: "Client \<Rightarrow> env \<Rightarrow> string \<Rightarrow> world \<Rightarrow> string \<times> world" where
  "GetAuthURL c e userID w =
     (case authState e userID w of (state, w1) \<Rightarrow> (Client_GetAuthURL c state, w1))"

text \<open>
  The loop of \<^verbatim>\<open>HandleOAuthCallback\<close> over the state: the prefix before the first colon,
  empty when there is none. (The loop decodes runes; the byte \<open>0x3A\<close> occurs in UTF-8
  only as the colon itself, so the first colon rune is at the first colon byte.)
\<close>

fun index_colon :: "string \<Rightarrow> nat option" where
  "index_colon [] = None"
| "index_colon (c # cs) = (if c = CHR '':'' then Some 0 else map_option Suc (index_colon cs))"

definition state_userID :: "string \<Rightarrow> string" where
  "state_userID state = (case index_colon state of None \<Rightarrow> [] | Some i \<Rightarrow> take i state)"

definition HandleOAuthCallback :: "env \<Rightarrow> string \<Rightarrow> string \<Rightarrow> world
    \<Rightarrow> (error + WHOOPConnection) \<times> world" where
  "HandleOAuthCallback e code state w =
     (if length state < 10 then (Inl InvalidStateParameter, w)
      else (let userID = state_userID state
            in if userID = [] then (Inl InvalidStateFormat, w)
               else (case ExchangeCodeForToken e code w of
                       (Inl err, w1) \<Rightarrow> (Inl (ExchangeFailed err), w1)
                     | (Inr tokenResp, w1) \<Rightarrow>
                         (case GetUserProfile e (tok_AccessToken tokenResp) w1 of
                            (Inl err, w2) \<Rightarrow> (Inl (ProfileFailed err), w2)
                          | (Inr profile, w2) \<Rightarrow>
                              (case time_Now e w2 of (now1, w3) \<Rightarrow>
                               case time_Now e w3 of (now2, w4) \<Rightarrow>
                                 (let connection =
                                        \<lparr> ID = 0,
                                          UserID = userID,
                                          WHOOPUserID = fmt_d (prof_UserID profile),
                                          AccessToken = tok_AccessToken tokenResp,
                                          RefreshToken = tok_RefreshToken tokenResp,
                                          ExpiresAt =
                                            time_Add now1 (wrap64 (tok_ExpiresIn tokenResp * Second)),
                                          ConnectedAt = now2,
                                          Active = True \<rparr>
                                  in case UpsertWHOOPConnection e connection w4 of
                                       (Some err, w5) \<Rightarrow> (Inl (StoreConnectionFailed err), w5)
                                     | (None, w5) \<Rightarrow>
                                         (Inr connection,
                                          emit (LogLine (LogConnected userID (prof_UserID profile))) w5)))))))"

subsection \<open>Token refresh\<close>

definition RefreshTokenIfNeeded :: "env \<Rightarrow> WHOOPConnection \<Rightarrow> world
    \<Rightarrow> (error + WHOOPConnection) \<times> world" where
  "RefreshTokenIfNeeded e connection w =
     (case time_Now e w of (now, w1) \<Rightarrow>
        if time_Sub (ExpiresAt connection) now > Hour then (Inr connection, w1)
        else (case RefreshAccessToken e (RefreshToken connection)
                     (emit (LogLine (LogRefreshing (UserID connection))) w1) of
                (Inl err, w2) \<Rightarrow>
                  (case DeactivateWHOOPConnection e (UserID connection) w2 of
                     (_, w3) \<Rightarrow> (Inl (RefreshFailed (UserID connection) err), w3))
              | (Inr tokenResp, w2) \<Rightarrow>
                  (case time_Now e w2 of (now2, w3) \<Rightarrow>
                     (let connection' =
                            connection\<lparr> AccessToken := tok_AccessToken tokenResp,
                                        RefreshToken := tok_RefreshToken tokenResp,
                                        ExpiresAt :=
                                          time_Add now2 (wrap64 (tok_ExpiresIn tokenResp * Second)) \<rparr>
                      in case UpsertWHOOPConnection e connection' w3 of
                           (Some err, w4) \<Rightarrow> (Inl (UpdateConnectionFailed err), w4)
                         | (None, w4) \<Rightarrow> (Inr connection', w4)))))"

subsection \<open>Ingestion\<close>

definition recoveryModel :: "(float64 \<Rightarrow> int) \<Rightarrow> WHOOPConnection \<Rightarrow> RecoveryData \<Rightarrow> time
    \<Rightarrow> WHOOPRecovery" where
  "recoveryModel oor connection recovery now =
     \<lparr> rec_ID = 0,
       rec_UserID = UserID connection,
       rec_WHOOPUserID = fmt_d (rd_UserID recovery),
       rec_Date = ztime_Truncate (rd_CreatedAt recovery) (24 * Hour),
       rec_Score = go_int oor (rd_RecoveryScore recovery),
       rec_HRV = rd_HRVRmssd recovery,
       rec_RHR = go_int oor (rd_RestingHR recovery),
       rec_CreatedAt = now \<rparr>"

fun storeRecovery :: "env \<Rightarrow> WHOOPConnection \<Rightarrow> RecoveryData list \<Rightarrow> world \<Rightarrow> world" where
  "storeRecovery e connection [] w = w"
| "storeRecovery e connection (recovery # rest) w =
     (case time_Now e w of (now, w1) \<Rightarrow>
      case UpsertWHOOPRecovery e (recoveryModel (conv_oor e) connection recovery now) w1 of
        (Some err, w2) \<Rightarrow>
          storeRecovery e connection rest
            (emit (LogLine (LogStoreRecoveryFailed (UserID connection) err)) w2)
      | (None, w2) \<Rightarrow> storeRecovery e connection rest w2)"

definition syncRecoveryData :: "env \<Rightarrow> WHOOPConnection \<Rightarrow> time \<Rightarrow> time \<Rightarrow> world
    \<Rightarrow> error option \<times> world" where
  "syncRecoveryData e connection start endt w =
     (case GetRecovery e (AccessToken connection) start endt w of
        (Inl err, w1) \<Rightarrow> (Some (GetRecoveryFailed err), w1)
      | (Inr records, w1) \<Rightarrow> (None, storeRecovery e connection records w1))"

text \<open>The sum of the three stage durations, in 64-bit arithmetic.\<close>

definition totalSleepMS :: "SleepData \<Rightarrow> int" where
  "totalSleepMS sleep =
     wrap64 (wrap64 (sd_TotalLightSleepMS sleep + sd_TotalSlowWaveSleepMS sleep) +
             sd_TotalRemSleepMS sleep)"

definition efficiencyFactor :: "SleepData \<Rightarrow> float64" where
  "efficiencyFactor sleep = fdiv (sd_SleepEfficiencyPercentage sleep) 100"

definition durationHours :: "SleepData \<Rightarrow> float64" where
  "durationHours sleep = fdiv (float64_of_int (totalSleepMS sleep)) (1000 * 60 * 60)"

text \<open>
  The score that \<^verbatim>\<open>syncSleepData\<close> stores. Of the constants only \<open>0.85\<close> is not a
  float64 and is rounded.
\<close>

definition sleepScore :: "(float64 \<Rightarrow> int) \<Rightarrow> SleepData \<Rightarrow> int" where
  "sleepScore oor sleep =
     (if sd_SleepScore sleep = 0 \<and> sd_SleepEfficiencyPercentage sleep > 0
      then (if durationHours sleep \<ge> 7.5 \<and> efficiencyFactor sleep \<ge> fl64 0.85
            then go_int oor (fadd 75 (fmul (fsub (efficiencyFactor sleep) (fl64 0.85)) 100))
            else if durationHours sleep \<ge> 6.5 \<and> efficiencyFactor sleep \<ge> 0.75
            then go_int oor (fadd 60 (fmul (fsub (efficiencyFactor sleep) 0.75) 150))
            else go_int oor (fmul (efficiencyFactor sleep) 60))
      else sd_SleepScore sleep)"

definition sleepModel :: "(float64 \<Rightarrow> int) \<Rightarrow> WHOOPConnection \<Rightarrow> SleepData \<Rightarrow> time
    \<Rightarrow> WHOOPSleep" where
  "sleepModel oor connection sleep now =
     \<lparr> slp_ID = 0,
       slp_UserID = UserID connection,
       slp_WHOOPUserID = fmt_d (sd_UserID sleep),
       slp_Date = ztime_Truncate (sd_End sleep) (24 * Hour),
       slp_DurationMS = totalSleepMS sleep,
       slp_Efficiency = sd_SleepEfficiencyPercentage sleep,
       slp_Score = sleepScore oor sleep,
       slp_StagesDeepMS = sd_TotalSlowWaveSleepMS sleep,
       slp_StagesREMS = sd_TotalRemSleepMS sleep,
       slp_StagesLightMS = sd_TotalLightSleepMS sleep,
       slp_StagesWakeMS = sd_TotalAwakeTimeMS sleep,
       slp_CreatedAt = now \<rparr>"

fun storeSleep :: "env \<Rightarrow> WHOOPConnection \<Rightarrow> SleepData list \<Rightarrow> world \<Rightarrow> world" where
  "storeSleep e connection [] w = w"
| "storeSleep e connection (sleep # rest) w =
     (let w0 = (if sd_SleepScore sleep = 0 \<and> sd_SleepEfficiencyPercentage sleep > 0
                then emit (LogLine (LogSleepEstimated (sleepScore (conv_oor e) sleep)
                             (sd_SleepEfficiencyPercentage sleep) (durationHours sleep))) w
                else w)
      in case time_Now e w0 of (now, w1) \<Rightarrow>
         case UpsertWHOOPSleep e (sleepModel (conv_oor e) connection sleep now) w1 of
           (Some err, w2) \<Rightarrow>
             storeSleep e connection rest
               (emit (LogLine (LogStoreSleepFailed (UserID connection) err)) w2)
         | (None, w2) \<Rightarrow> storeSleep e connection rest w2)"

definition syncSleepData :: "env \<Rightarrow> WHOOPConnection \<Rightarrow> time \<Rightarrow> time \<Rightarrow> world
    \<Rightarrow> error option \<times> world" where
  "syncSleepData e connection start endt w =
     (case GetSleep e (AccessToken connection) start endt w of
        (Inl err, w1) \<Rightarrow> (Some (GetSleepFailed err), w1)
      | (Inr records, w1) \<Rightarrow> (None, storeSleep e connection records w1))"

subsection \<open>Synchronisation\<close>

definition SyncUserData :: "env \<Rightarrow> string \<Rightarrow> world \<Rightarrow> error option \<times> world" where
  "SyncUserData e userID w =
     (case GetWHOOPConnection e userID w of
        (Inl err, w1) \<Rightarrow> (Some (NoConnection userID err), w1)
      | (Inr connection0, w1) \<Rightarrow>
          (case RefreshTokenIfNeeded e connection0 w1 of
             (Inl err, w2) \<Rightarrow> (Some (SyncRefreshFailed err), w2)
           | (Inr connection, w2) \<Rightarrow>
               (case time_Now e w2 of (endt, w3) \<Rightarrow>
                  (let start = addDays e endt (- 2)
                   in case syncRecoveryData e connection start endt w3 of (err1, w4) \<Rightarrow>
                        (let w5 = (case err1 of
                                     Some err \<Rightarrow> emit (LogLine (LogRecoveryFailed userID err)) w4
                                   | None \<Rightarrow> w4)
                         in case syncSleepData e connection start endt w5 of (err2, w6) \<Rightarrow>
                              (None,
                               (case err2 of
                                  Some err \<Rightarrow> emit (LogLine (LogSleepFailed userID err)) w6
                                | None \<Rightarrow> w6)))))))"

text \<open>
  The loop of \<^verbatim>\<open>SyncAllUsersData\<close> over the listed connections: \<open>syncOne\<close> is its
  body.
\<close>

definition syncOne :: "env \<Rightarrow> WHOOPConnection \<Rightarrow> world \<Rightarrow> world" where
  "syncOne e connection w =
     (case SyncUserData e (UserID connection) w of
        (Some err, w1) \<Rightarrow> emit (LogLine (LogSyncFailed (UserID connection) err)) w1
      | (None, w1) \<Rightarrow> w1)"

fun syncEach :: "env \<Rightarrow> WHOOPConnection list \<Rightarrow> world \<Rightarrow> world" where
  "syncEach e [] w = w"
| "syncEach e (connection # rest) w = syncEach e rest (syncOne e connection w)"

definition SyncAllUsersData :: "env \<Rightarrow> world \<Rightarrow> error option \<times> world" where
  "SyncAllUsersData e w =
     (case GetAllActiveWHOOPConnections e w of
        (Inl err, w1) \<Rightarrow> (Some (GetConnectionsFailed err), w1)
      | (Inr connections, w1) \<Rightarrow>
          (None,
           emit (LogLine LogCompleted)
             (syncEach e connections (emit (LogLine (LogSyncing (length connections))) w1))))"

definition DisconnectUser :: "env \<Rightarrow> string \<Rightarrow> world \<Rightarrow> dberr option \<times> world" where
  "DisconnectUser e userID w = DeactivateWHOOPConnection e userID w"

subsection \<open>Sequences of operations\<close>

text \<open>
  The operations of the service that write the connection table, and a run of them
  against one schedule of the outside.
\<close>

datatype operation =
    Connect string string
  | Refresh WHOOPConnection
  | SyncUser string
  | SyncAll
  | Disconnect string

fun perform :: "env \<Rightarrow> operation \<Rightarrow> world \<Rightarrow> world" where
  "perform e (Connect code state) w = snd (HandleOAuthCallback e code state w)"
| "perform e (Refresh connection) w = snd (RefreshTokenIfNeeded e connection w)"
| "perform e (SyncUser userID) w = snd (SyncUserData e userID w)"
| "perform e SyncAll w = snd (SyncAllUsersData e w)"
| "perform e (Disconnect userID) w = snd (DisconnectUser e userID w)"

fun run :: "env \<Rightarrow> operation list \<Rightarrow> world \<Rightarrow> world" where
  "run e [] w = w"
| "run e (oper # rest) w = run e rest (perform e oper w)"

section \<open>Notions used in the statements\<close>

text \<open>The refresh tokens of the refresh requests of a trace, in order.\<close>

fun refreshRequests :: "event list \<Rightarrow> string list" where
  "refreshRequests [] = []"
| "refreshRequests (RefreshRequest tok # evs) = tok # refreshRequests evs"
| "refreshRequests (_ # evs) = refreshRequests evs"

text \<open>No row of the user is active.\<close>

definition inactive :: "string \<Rightarrow> world \<Rightarrow> bool" where
  "inactive u w = (\<forall>r\<in>set (whoop_connections w). UserID r = u \<longrightarrow> \<not> Active r)"

text \<open>The constraint \<^verbatim>\<open>UNIQUE(user_id)\<close> of the connection table.\<close>

definition unique_users :: "world \<Rightarrow> bool" where
  "unique_users w = distinct (map UserID (whoop_connections w))"

text \<open>The number of active connections of a user.\<close>

definition activeCount :: "string \<Rightarrow> world \<Rightarrow> nat" where
  "activeCount u w = length (filter (\<lambda>r. UserID r = u \<and> Active r) (whoop_connections w))"

text \<open>
  What one call may do to the connection table: nothing, the deactivation of the rows
  of \<open>u\<close>, or the replacement of the rows of \<open>u\<close> by one row, active only if \<open>act\<close>.
\<close>

definition touched :: "string \<Rightarrow> bool \<Rightarrow> WHOOPConnection list \<Rightarrow> WHOOPConnection list \<Rightarrow> bool" where
  "touched u act cs cs' \<longleftrightarrow>
     cs' = cs \<or>
     cs' = map (\<lambda>r. if UserID r = u then r\<lparr>Active := False\<rparr> else r) cs \<or>
     (\<exists>c. UserID c = u \<and> (Active c \<longrightarrow> act) \<and> cs' = filter (\<lambda>r. UserID r \<noteq> u) cs @ [c])"

text \<open>The operations that synchronise or disconnect, without a new OAuth callback.\<close>

fun syncOnly :: "operation \<Rightarrow> bool" where
  "syncOnly (Connect code state) = False"
| "syncOnly (Refresh connection) = False"
| "syncOnly (SyncUser userID) = True"
| "syncOnly SyncAll = True"
| "syncOnly (Disconnect userID) = True"

section \<open>Example inputs\<close>

definition exToken :: TokenResponse where
  "exToken =
     \<lparr> tok_AccessToken = ''access-2'', tok_TokenType = ''bearer'', tok_ExpiresIn = 3600,
       tok_RefreshToken = ''refresh-2'', tok_Scope = ''read:recovery'', tok_UserID = ''42'' \<rparr>"

definition exProfile :: UserProfile where
  "exProfile =
     \<lparr> prof_UserID = 42, prof_Email = ''u@example.org'', prof_FirstName = ''Ada'',
       prof_LastName = ''L'' \<rparr>"

definition exConn :: WHOOPConnection where
  "exConn =
     \<lparr> ID = 1, UserID = ''U123'', WHOOPUserID = ''42'', AccessToken = ''access-1'',
       RefreshToken = ''refresh-1'', ExpiresAt = 1800 * Second, ConnectedAt = 0, Active = True \<rparr>"

text \<open>A store that holds the connection of \<open>U123\<close>.\<close>

definition exWorld :: world where
  "exWorld = emptyWorld\<lparr> whoop_connections := [exConn], seq_connections := 1 \<rparr>"

text \<open>A store that holds the connections of \<open>U123\<close> and of \<open>U456\<close>.\<close>

definition exConn2 :: WHOOPConnection where
  "exConn2 =
     \<lparr> ID = 2, UserID = ''U456'', WHOOPUserID = ''43'', AccessToken = ''access-4'',
       RefreshToken = ''refresh-4'', ExpiresAt = 1800 * Second, ConnectedAt = 0, Active = True \<rparr>"

definition exWorld2 :: world where
  "exWorld2 = emptyWorld\<lparr> whoop_connections := [exConn, exConn2], seq_connections := 2 \<rparr>"

text \<open>
  An outside where the clock stands at zero, in a location without clock changes, and
  every request succeeds.
\<close>

definition calmEnv :: env where
  "calmEnv =
     \<lparr> clock = (\<lambda>n. 0),
       addDays = (\<lambda>t days. t + days * (24 * Hour)),
       db_fault = (\<lambda>n. None),
       rows_fault = (\<lambda>n. None),
       exchange_resp = (\<lambda>n code. Inr exToken),
       profile_resp = (\<lambda>n accessToken. Inr exProfile),
       refresh_resp = (\<lambda>n refreshToken. Inr exToken),
       recovery_resp = (\<lambda>n accessToken start endt. Inr []),
       sleep_resp = (\<lambda>n accessToken start endt. Inr []),
       random = (\<lambda>n i. 171),
       conv_oor = (\<lambda>x. - (2 ^ 63)) \<rparr>"

text \<open>The provider rejects every refresh token.\<close>

definition rejectEnv :: env where
  "rejectEnv = calmEnv\<lparr> refresh_resp := (\<lambda>n refreshToken. Inl (BadStatus 400 ''invalid_grant'')) \<rparr>"

text \<open>The same, and the third interaction, a statement, meets a locked database.\<close>

definition lockedEnv :: env where
  "lockedEnv =
     rejectEnv\<lparr> db_fault := (\<lambda>n. if n = 2 then Some (ErrDriver ''database is locked'') else None) \<rparr>"

text \<open>The provider rejects the refresh token of \<open>U123\<close> and accepts every other.\<close>

definition rejectOneEnv :: env where
  "rejectOneEnv =
     calmEnv\<lparr> refresh_resp :=
       (\<lambda>n refreshToken. if refreshToken = ''refresh-1'' then Inl (BadStatus 400 ''invalid_grant'')
                          else Inr exToken) \<rparr>"

text \<open>The scan of the second row of every query fails.\<close>

definition scanEnv :: env where
  "scanEnv = calmEnv\<lparr> rows_fault := (\<lambda>n. Some (ScanFails 1 (ErrDriver ''sql: Scan error''))) \<rparr>"

text \<open>The database handle is closed: the first interaction, a query, returns an error.\<close>

definition closedEnv :: env where
  "closedEnv =
     calmEnv\<lparr> db_fault := (\<lambda>n. if n = 0 then Some (ErrDriver ''sql: database is closed'') else None) \<rparr>"

text \<open>Eight hours of sleep, no score from the provider.\<close>

definition exSleep :: "float64 \<Rightarrow> SleepData" where
  "exSleep pct =
     \<lparr> sd_UserID = 42, sd_End = (0, 0), sd_TotalAwakeTimeMS = 1800000,
       sd_TotalLightSleepMS = 14400000, sd_TotalSlowWaveSleepMS = 7200000,
       sd_TotalRemSleepMS = 7200000, sd_SleepEfficiencyPercentage = pct, sd_SleepScore = 0 \<rparr>"

definition exRows :: "row list" where
  "exRows =
     [[''recovery_score'' \<mapsto> VInt64 80, ''sleep_score'' \<mapsto> VInt64 90],
      [''recovery_score'' \<mapsto> VInt64 60]]"

section \<open>Properties of the numerics\<close>

text \<open>
  Known values: the float64 nearest to 0.1 is \<open>3602879701896397 / 2^55\<close>, a tie goes to
  the even neighbour, and a value that float64 holds is kept.
\<close>

lemma fl64_known_values:
  "fl64 (1 / 10) = 3602879701896397 / 36028797018963968"
  "fl64 (2 ^ 53 + 1) = 2 ^ 53"
  "fl64 (2 ^ 53 + 3) = 2 ^ 53 + 4"
  "fl64 (- (7 / 2)) = - (7 / 2)"
  by code_simp+

lemma fl64_zero: "fl64 0 = 0" by (simp add: fl64_def)

lemma pow2_pos: "0 < pow2 k" by (simp add: pow2_def)

lemma floorlog2_le:
  assumes "0 < x" shows "pow2 (floorlog2 x) \<le> x"
proof -
  obtain p q where pq: "quotient_of x = (p, q)" by (cases "quotient_of x")
  have q: "0 < q" using pq by (rule quotient_of_denom_pos)
  have x: "x = of_int p / of_int q" using pq by (rule quotient_of_div)
  have p: "0 < p" using assms q unfolding x by (simp add: zero_less_divide_iff)
  define k where "k = bitlen p - bitlen q"
  show ?thesis
  proof (cases "pow2 k \<le> x")
    case True
    then show ?thesis by (simp add: floorlog2_def pq k_def Let_def)
  next
    case False
    have fl: "floorlog2 x = k - 1" using False by (simp add: floorlog2_def pq k_def Let_def)
    have bp: "2 ^ nat (bitlen p - 1) \<le> p" using bitlen_bounds [OF p] by simp
    have bq: "q < 2 ^ nat (bitlen q)" using bitlen_bounds [OF q] by simp
    have bp1: "1 \<le> bitlen p" using p by (simp add: bitlen_alt_def)
    have bq1: "0 \<le> bitlen q" by (rule bitlen_nonneg)
    have "k - 1 = (bitlen p - 1) - bitlen q" by (simp add: k_def)
    then have "pow2 (k - 1) = pow2 ((bitlen p - 1) - bitlen q)" by (rule arg_cong)
    also have "\<dots> = pow2 (bitlen p - 1) / pow2 (bitlen q)"
      unfolding pow2_def by (rule power_int_diff) simp
    also have "\<dots> = 2 ^ nat (bitlen p - 1) / 2 ^ nat (bitlen q)"
      unfolding pow2_def using bp1 bq1 by (simp add: power_int_def)
    also have "\<dots> \<le> of_int p / of_int q"
    proof -
      have a: "(2::rat) ^ nat (bitlen p - 1) \<le> of_int p"
        using bp by (metis of_int_le_iff of_int_numeral of_int_power)
      have b: "of_int q \<le> (2::rat) ^ nat (bitlen q)"
        using bq by (metis less_imp_le of_int_le_iff of_int_numeral of_int_power)
      have c: "(0::rat) < of_int q" using q by simp
      show ?thesis by (rule frac_le) (use a b c p in simp_all)
    qed
    finally have "pow2 (k - 1) \<le> of_int p / of_int q" .
    then show ?thesis by (metis fl x)
  qed
qed

lemma round_half_even_ge: "of_int n \<le> x \<Longrightarrow> n \<le> round_half_even x"
proof -
  assume "of_int n \<le> x"
  then have "n \<le> \<lfloor>x\<rfloor>" by (simp add: le_floor_iff)
  then show ?thesis unfolding round_half_even_def Let_def by auto
qed

lemma fl64_pos:
  assumes "1 \<le> x" shows "0 < fl64 x"
proof -
  have x0: "0 < x" "x \<noteq> 0" "\<bar>x\<bar> = x" using assms by auto
  define q where "q = max (floorlog2 x - 52) (- 1074)"
  have fl: "fl64 x = of_int (round_half_even (x / pow2 q)) * pow2 q"
    using x0 by (simp add: fl64_def q_def Let_def)
  have qp: "0 < pow2 q" by (rule pow2_pos)
  have "pow2 q \<le> x"
  proof (cases "- 1074 \<le> floorlog2 x - 52")
    case True
    then have "q \<le> floorlog2 x" by (simp add: q_def)
    then have "pow2 q \<le> pow2 (floorlog2 x)"
      unfolding pow2_def by (intro power_int_increasing) simp_all
    also have "\<dots> \<le> x" using x0(1) by (rule floorlog2_le)
    finally show ?thesis .
  next
    case False
    then have "q \<le> 0" by (simp add: q_def)
    then have "pow2 q \<le> pow2 0"
      unfolding pow2_def by (intro power_int_increasing) simp_all
    then show ?thesis using assms by (simp add: pow2_def)
  qed
  then have "of_int 1 \<le> x / pow2 q" using qp by (simp add: le_divide_eq)
  then have "1 \<le> round_half_even (x / pow2 q)" by (rule round_half_even_ge)
  then have "(0::rat) < of_int (round_half_even (x / pow2 q))" by simp
  then show ?thesis unfolding fl using qp by (rule mult_pos_pos)
qed

lemma floorlog2_less:
  assumes "0 < x" shows "x < pow2 (floorlog2 x + 1)"
proof -
  obtain p q where pq: "quotient_of x = (p, q)" by (cases "quotient_of x")
  have q: "0 < q" using pq by (rule quotient_of_denom_pos)
  have x: "x = of_int p / of_int q" using pq by (rule quotient_of_div)
  have p: "0 < p" using assms q unfolding x by (simp add: zero_less_divide_iff)
  define k where "k = bitlen p - bitlen q"
  show ?thesis
  proof (cases "pow2 k \<le> x")
    case True
    have fl: "floorlog2 x = k" using True by (simp add: floorlog2_def pq k_def Let_def)
    have bp: "p < 2 ^ nat (bitlen p)" using bitlen_bounds [OF p] by simp
    have bq: "2 ^ nat (bitlen q - 1) \<le> q" using bitlen_bounds [OF q] by simp
    have bp1: "0 \<le> bitlen p" by (rule bitlen_nonneg)
    have bq1: "1 \<le> bitlen q" using q by (simp add: bitlen_alt_def)
    have a: "of_int p < (2::rat) ^ nat (bitlen p)"
      using bp by (metis of_int_less_iff of_int_numeral of_int_power)
    have b: "(2::rat) ^ nat (bitlen q - 1) \<le> of_int q"
      using bq by (metis of_int_le_iff of_int_numeral of_int_power)
    have "of_int p / of_int q < (2::rat) ^ nat (bitlen p) / 2 ^ nat (bitlen q - 1)"
      by (rule frac_less) (use a b p q in simp_all)
    also have "\<dots> = pow2 (bitlen p) / pow2 (bitlen q - 1)"
      unfolding pow2_def using bp1 bq1 by (simp add: power_int_def)
    also have "\<dots> = pow2 (bitlen p - (bitlen q - 1))"
      unfolding pow2_def by (rule power_int_diff [symmetric]) simp
    also have "bitlen p - (bitlen q - 1) = k + 1" by (simp add: k_def)
    finally have "of_int p / of_int q < pow2 (k + 1)" .
    then show ?thesis by (metis fl x)
  next
    case False
    have fl: "floorlog2 x = k - 1" using False by (simp add: floorlog2_def pq k_def Let_def)
    show ?thesis using False by (simp add: fl)
  qed
qed

lemma pow2_mono: "a \<le> b \<Longrightarrow> pow2 a \<le> pow2 b"
  unfolding pow2_def by (rule power_int_increasing) simp_all

lemma pow2_less_imp: "pow2 a < pow2 b \<Longrightarrow> a < b"
  using pow2_mono [of b a] by (cases "a < b") simp_all

lemma round_half_even_of_int: "round_half_even (of_int m) = m"
  by (simp add: round_half_even_def)

lemma pow2_nonneg_int: "0 \<le> k \<Longrightarrow> pow2 k = of_int (2 ^ nat k)"
  by (simp add: pow2_def power_int_def)

lemma fl64_of_int_exact:
  assumes "\<bar>n\<bar> < 2 ^ 53"
  shows "fl64 (of_int n) = of_int n"
proof (cases "n = 0")
  case True
  then show ?thesis by (simp add: fl64_zero)
next
  case False
  define a :: rat where "a = \<bar>of_int n\<bar>"
  have a1: "1 \<le> a" using False by (simp add: a_def)
  have a0: "0 < a" using a1 by simp
  define k where "k = floorlog2 a"
  have lo: "pow2 k \<le> a" unfolding k_def using a0 by (rule floorlog2_le)
  have hi: "a < pow2 (k + 1)" unfolding k_def using a0 by (rule floorlog2_less)
  have "a < 2 ^ 53"
  proof -
    have "a = of_int \<bar>n\<bar>" by (simp add: a_def)
    also have "\<dots> < of_int (2 ^ 53)" using assms by (simp only: of_int_less_iff)
    finally show ?thesis by simp
  qed
  then have "pow2 k < pow2 53" using lo by (simp add: pow2_def)
  then have k53: "k < 53" by (rule pow2_less_imp)
  have "pow2 0 < pow2 (k + 1)" using a1 hi by (simp add: pow2_def)
  then have k0: "0 \<le> k" using pow2_less_imp [of 0 "k + 1"] by simp
  define q where "q = max (k - 52) (- 1074)"
  have q: "q = k - 52" using k0 by (simp add: q_def)
  have q0: "q \<le> 0" using k53 q by simp
  have fl: "fl64 (of_int n) = of_int (round_half_even (of_int n / pow2 q)) * pow2 q"
    using False by (simp add: fl64_def q_def k_def a_def Let_def)
  have inv: "1 / pow2 q = of_int (2 ^ nat (- q))"
  proof -
    have "1 / pow2 q = pow2 (- q)" by (simp add: pow2_def power_int_minus divide_inverse)
    also have "\<dots> = of_int (2 ^ nat (- q))" using q0 by (intro pow2_nonneg_int) simp
    finally show ?thesis .
  qed
  have "of_int n / pow2 q = of_int n * (1 / pow2 q)" by simp
  also have "\<dots> = of_int (n * 2 ^ nat (- q))" unfolding inv by simp
  finally have d: "of_int n / pow2 q = of_int (n * 2 ^ nat (- q))" .
  have "fl64 (of_int n) = of_int (n * 2 ^ nat (- q)) * pow2 q"
    unfolding fl d round_half_even_of_int ..
  also have "\<dots> = of_int n * (of_int (2 ^ nat (- q)) * pow2 q)" by simp
  also have "of_int (2 ^ nat (- q)) * pow2 q = (1::rat)"
    unfolding inv [symmetric] using pow2_pos [of q] by simp
  finally show ?thesis by simp
qed

lemma float64_of_length_nonzero:
  assumes "0 < length scores"
  shows "float64_of_int (int (length scores)) \<noteq> 0"
proof -
  have "1 \<le> int (length scores)" using assms by (cases scores) simp_all
  then have "(1::rat) \<le> of_int (int (length scores))" by (simp only: of_int_1_le_iff)
  then have "0 < fl64 (of_int (int (length scores)))" by (rule fl64_pos)
  then show ?thesis by (simp add: float64_of_int_def)
qed

section \<open>Properties of the formatter\<close>

lemma asInt64_iff: "asInt64 r k = Some n \<longleftrightarrow> r k = Some (VInt64 n)"
  by (auto simp: asInt64_def present_def split: option.splits val.splits)

lemma asInt64_absent: "\<not> present r k \<Longrightarrow> asInt64 r k = None"
  by (simp add: asInt64_def)

text \<open>The first loop, in closed form: the two slices and the total of hours.\<close>

lemma collect_eq:
  "collect rows (rs, ss, t) =
     (rs @ map float64_of_int (List.map_filter (\<lambda>r. asInt64 r ''recovery_score'') rows),
      ss @ map float64_of_int (List.map_filter (\<lambda>r. asInt64 r ''sleep_score'') rows),
      foldl (\<lambda>total duration. fadd total (fdiv (float64_of_int duration) (1000 * 60 * 60))) t
        (List.map_filter (\<lambda>r. asInt64 r ''duration_ms'') rows))"
proof (induction rows arbitrary: rs ss t)
  case Nil
  then show ?case by (simp add: map_filter_simps)
next
  case (Cons r rows)
  show ?case
    by (simp add: Cons.IH map_filter_simps split: option.splits)
qed

lemma recoveryNum_eq:
  "recoveryNum (calculateTeamSummary rows) =
     average (map float64_of_int (List.map_filter (\<lambda>r. asInt64 r ''recovery_score'') rows))"
  by (simp add: calculateTeamSummary_def collect_eq Let_def)

lemma sleepNum_eq:
  "sleepNum (calculateTeamSummary rows) =
     average (map float64_of_int (List.map_filter (\<lambda>r. asInt64 r ''sleep_score'') rows))"
  by (simp add: calculateTeamSummary_def collect_eq Let_def)

lemma avgRecovery_eq:
  "avgRecovery (calculateTeamSummary rows) = formatScore (recoveryNum (calculateTeamSummary rows))"
  by (simp add: calculateTeamSummary_def Let_def split: prod.splits)

lemma avgSleep_eq:
  "avgSleep (calculateTeamSummary rows) = formatScore (sleepNum (calculateTeamSummary rows))"
  by (simp add: calculateTeamSummary_def Let_def split: prod.splits)

lemma emoji_eq:
  "emoji (calculateTeamSummary rows) =
     getTeamMoodEmoji (recoveryNum (calculateTeamSummary rows)) (sleepNum (calculateTeamSummary rows))"
  by (simp add: calculateTeamSummary_def Let_def split: prod.splits)

lemma totalSleep_eq:
  "totalSleep (calculateTeamSummary rows) =
     fmt_f 1 (foldl (\<lambda>total duration. fadd total (fdiv (float64_of_int duration) (1000 * 60 * 60))) 0
        (List.map_filter (\<lambda>r. asInt64 r ''duration_ms'') rows)) @ ''h total''"
  by (simp add: calculateTeamSummary_def collect_eq Let_def)

lemma foldl_fadd_zeros: "\<forall>x\<in>set xs. x = 0 \<Longrightarrow> foldl fadd 0 xs = 0"
  by (induction xs) (simp_all add: fadd_def fl64_zero)

text \<open>
  The divisor of an average is not zero behind the guard, so the average is finite.
\<close>

lemma average_finite:
  "average scores =
     Finite (if scores = [] then 0
             else fdiv (foldl fadd 0 scores) (float64_of_int (int (length scores))))"
proof (cases "scores = []")
  case True
  then show ?thesis by (simp add: average_def)
next
  case False
  then have "0 < length scores" by simp
  then have "float64_of_int (int (length scores)) \<noteq> 0" by (rule float64_of_length_nonzero)
  then show ?thesis using False by (simp add: average_def fquo_def)
qed

lemma average_zeros: "\<forall>x\<in>set xs. x = 0 \<Longrightarrow> average xs = Finite 0"
  by (simp add: average_finite foldl_fadd_zeros fdiv_def fl64_zero)

text \<open>
  On scores between 0 and 100 the sum loop is exact, and the average is the exact mean
  rounded once.
\<close>

lemma float64_of_int_exact: "\<bar>n\<bar> < 2 ^ 53 \<Longrightarrow> float64_of_int n = of_int n"
  by (simp add: float64_of_int_def fl64_of_int_exact)

lemma foldl_fadd_exact:
  assumes "\<forall>n\<in>set ns. 0 \<le> n \<and> n \<le> b" and "0 \<le> s" and "s + b * int (length ns) < 2 ^ 53"
  shows "foldl fadd (of_int s) (map float64_of_int ns) = of_int (s + sum_list ns)"
  using assms
proof (induction ns arbitrary: s)
  case Nil
  then show ?case by simp
next
  case (Cons n ns)
  have n: "0 \<le> n" "n \<le> b" using Cons.prems(1) by simp_all
  have b: "0 \<le> b" using n by simp
  have len: "0 \<le> b * int (length ns)" using b by simp
  have sn: "s + n + b * int (length ns) < 2 ^ 53"
  proof -
    have "s + n + b * int (length ns) \<le> s + b + b * int (length ns)" using n by simp
    also have "\<dots> = s + b * int (length (n # ns))" by (simp add: algebra_simps)
    finally show ?thesis using Cons.prems(3) by simp
  qed
  have "n < 2 ^ 53" using n sn len Cons.prems(2) by linarith
  then have n53: "\<bar>n\<bar> < 2 ^ 53" using n by simp
  have "s + n < 2 ^ 53" using n sn len Cons.prems(2) by linarith
  then have s53: "\<bar>s + n\<bar> < 2 ^ 53" using n Cons.prems(2) by simp
  have "fadd (of_int s) (float64_of_int n) = fl64 (of_int (s + n))"
    by (simp add: fadd_def float64_of_int_exact [OF n53])
  also have "\<dots> = of_int (s + n)" using s53 by (rule fl64_of_int_exact)
  finally have st: "fadd (of_int s) (float64_of_int n) = of_int (s + n)" .
  have "foldl fadd (of_int (s + n)) (map float64_of_int ns) = of_int (s + n + sum_list ns)"
  proof (rule Cons.IH)
    show "\<forall>n\<in>set ns. 0 \<le> n \<and> n \<le> b" using Cons.prems(1) by simp
    show "0 \<le> s + n" using Cons.prems(2) n by simp
    show "s + n + b * int (length ns) < 2 ^ 53" by (rule sn)
  qed
  then show ?case by (simp add: st add.assoc)
qed

lemma average_exact:
  assumes "\<forall>n\<in>set ns. 0 \<le> n \<and> n \<le> 100" and "ns \<noteq> []" and "100 * int (length ns) < 2 ^ 53"
  shows "average (map float64_of_int ns) =
     Finite (fl64 (of_int (sum_list ns) / of_int (int (length ns))))"
proof -
  have s: "foldl fadd 0 (map float64_of_int ns) = of_int (sum_list ns)"
    using foldl_fadd_exact [of ns 100 0] assms(1,3) by simp
  have "\<bar>int (length ns)\<bar> < 2 ^ 53" using assms(3) by simp
  then have l: "float64_of_int (int (length ns)) = of_int (int (length ns))"
    by (rule float64_of_int_exact)
  show ?thesis using assms(2) by (simp add: average_finite s l fdiv_def)
qed

lemma average_80_60: "average [float64_of_int 80, float64_of_int 60] = Finite 70"
  by code_simp

lemma average_90: "average [float64_of_int 90] = Finite 90"
  by code_simp

lemma fmt_f_1_zero: "fmt_f 1 0 = ''0.0''"
  by code_simp

lemma mood_zero:
  "getTeamMoodEmoji (Finite 0) (Finite 0) = e_sos @ '' Team needs extra care today!''"
  by (simp add: getTeamMoodEmoji_def fadd_def fquo_def fdiv_def fl64_zero)

text \<open>
  Claim C5. For every list of team rows, the recovery average is the average of the
  recovery scores of exactly those rows that carry one (the key is present, not nil
  and an int64), in row order, and likewise the sleep average; a row without the metric
  adds nothing to the sum and nothing to the count. On scores between 0 and 100 that
  average is the exact mean, rounded to a float64. The total of sleep hours adds
  duration_ms / 3.6e6 over the rows that carry a duration. The rows
  [{recovery 80, sleep 90}, {recovery 60}] give the averages 70 and 90. (Every average
  is a finite number, \<open>Finite x\<close>.)
\<close>

theorem calculateTeamSummary_averages:
  "recoveryNum (calculateTeamSummary rows) =
     average (map float64_of_int (List.map_filter (\<lambda>r. asInt64 r ''recovery_score'') rows))
   \<and> sleepNum (calculateTeamSummary rows) =
     average (map float64_of_int (List.map_filter (\<lambda>r. asInt64 r ''sleep_score'') rows))
   \<and> totalSleep (calculateTeamSummary rows) =
     fmt_f 1 (foldl (\<lambda>total duration. fadd total (fdiv (float64_of_int duration) 3600000)) 0
        (List.map_filter (\<lambda>r. asInt64 r ''duration_ms'') rows)) @ ''h total''
   \<and> average scores =
     Finite (if scores = [] then 0
             else fdiv (foldl fadd 0 scores) (float64_of_int (int (length scores))))
   \<and> ((\<forall>n\<in>set ns. 0 \<le> n \<and> n \<le> 100) \<and> ns \<noteq> [] \<and> 100 * int (length ns) < 2 ^ 53 \<longrightarrow>
        average (map float64_of_int ns) =
          Finite (fl64 (of_int (sum_list ns) / of_int (int (length ns)))))
   \<and> (asInt64 r key = Some n) = (r key = Some (VInt64 n))
   \<and> recoveryNum (calculateTeamSummary exRows) = Finite 70
   \<and> sleepNum (calculateTeamSummary exRows) = Finite 90"
proof -
  have ex1: "recoveryNum (calculateTeamSummary exRows) = Finite 70"
    by (simp add: recoveryNum_eq exRows_def map_filter_simps asInt64_def present_def average_80_60)
  have ex2: "sleepNum (calculateTeamSummary exRows) = Finite 90"
    by (simp add: sleepNum_eq exRows_def map_filter_simps asInt64_def present_def average_90)
  have avg: "average scores =
     Finite (if scores = [] then 0
             else fdiv (foldl fadd 0 scores) (float64_of_int (int (length scores))))"
    by (rule average_finite)
  have tot: "totalSleep (calculateTeamSummary rows) =
     fmt_f 1 (foldl (\<lambda>total duration. fadd total (fdiv (float64_of_int duration) 3600000)) 0
        (List.map_filter (\<lambda>r. asInt64 r ''duration_ms'') rows)) @ ''h total''"
    using totalSleep_eq [of rows] by simp
  have mean: "(\<forall>n\<in>set ns. 0 \<le> n \<and> n \<le> 100) \<and> ns \<noteq> [] \<and> 100 * int (length ns) < 2 ^ 53 \<longrightarrow>
        average (map float64_of_int ns) =
          Finite (fl64 (of_int (sum_list ns) / of_int (int (length ns))))"
    using average_exact [of ns] by blast
  show ?thesis
    using recoveryNum_eq [of rows] sleepNum_eq [of rows] tot avg mean asInt64_iff [of r key n]
      ex1 ex2
    by (intro conjI)
qed

theorem calculateTeamSummary_averages_witness:
  "list_all (\<lambda>n. 0 \<le> n \<and> n \<le> 100) [80, 60 :: int]
   \<and> [80, 60 :: int] \<noteq> []
   \<and> 100 * int (length [80, 60 :: int]) < 2 ^ 53
   \<and> average (map float64_of_int [80, 60]) =
       Finite (fl64 (of_int (sum_list [80, 60]) / of_int (int (length [80, 60 :: int]))))
   \<and> fl64 (of_int (sum_list [80, 60]) / of_int (int (length [80, 60 :: int]))) = 70
   \<and> recoveryNum (calculateTeamSummary exRows) = Finite 70"
proof -
  have h1: "\<forall>n\<in>set [80, 60 :: int]. 0 \<le> n \<and> n \<le> 100" by simp
  have h2: "[80, 60 :: int] \<noteq> []" by simp
  have h3: "100 * int (length [80, 60 :: int]) < 2 ^ 53" by simp
  have l: "list_all (\<lambda>n. 0 \<le> n \<and> n \<le> 100) [80, 60 :: int]" by simp
  have v: "fl64 (of_int (sum_list [80, 60]) / of_int (int (length [80, 60 :: int]))) = 70"
    by code_simp
  note t = calculateTeamSummary_averages [of _ _ "[80, 60]"]
  have a: "average (map float64_of_int [80, 60]) =
       Finite (fl64 (of_int (sum_list [80, 60]) / of_int (int (length [80, 60 :: int]))))"
    using t h1 h2 h3 by blast
  have b: "recoveryNum (calculateTeamSummary exRows) = Finite 70" using t by blast
  show ?thesis using l h2 h3 a v b by (intro conjI)
qed

text \<open>
  Claim C7. On the empty list both averages are 0, both average fields read "N/A" and
  the total reads "0.0h total". No division by zero takes place: the division of an
  average is behind the guard on the number of scores. Without scores the guard leaves
  the constant 0, where the division itself, 0 / 0, would give NaN and the field would
  read "NaN%"; with scores the divisor, the converted length, is not zero. So for every
  list the average is a finite number.
\<close>

theorem calculateTeamSummary_empty:
  "recoveryNum (calculateTeamSummary []) = Finite 0
   \<and> sleepNum (calculateTeamSummary []) = Finite 0
   \<and> avgRecovery (calculateTeamSummary []) = ''N/A''
   \<and> avgSleep (calculateTeamSummary []) = ''N/A''
   \<and> totalSleep (calculateTeamSummary []) = ''0.0h total''
   \<and> average [] = Finite 0
   \<and> fquo (foldl fadd 0 []) (float64_of_int (int (length ([] :: float64 list)))) = NaN
   \<and> formatScore (fquo (foldl fadd 0 []) (float64_of_int (int (length ([] :: float64 list))))) =
       ''NaN%''
   \<and> (\<forall>scores. average scores =
         Finite (if scores = [] then 0
                 else fdiv (foldl fadd 0 scores) (float64_of_int (int (length scores)))))
   \<and> (\<forall>scores. 0 < length scores \<longrightarrow>
         average scores = fquo (foldl fadd 0 scores) (float64_of_int (int (length scores)))
         \<and> float64_of_int (int (length scores)) \<noteq> 0)"
proof -
  have r: "recoveryNum (calculateTeamSummary []) = Finite 0"
    by (simp add: recoveryNum_eq map_filter_simps average_def)
  have s: "sleepNum (calculateTeamSummary []) = Finite 0"
    by (simp add: sleepNum_eq map_filter_simps average_def)
  have ar: "avgRecovery (calculateTeamSummary []) = ''N/A''"
    by (simp add: avgRecovery_eq r formatScore_def)
  have as: "avgSleep (calculateTeamSummary []) = ''N/A''"
    by (simp add: avgSleep_eq s formatScore_def)
  have t: "totalSleep (calculateTeamSummary []) = ''0.0h total''"
    by (simp add: totalSleep_eq map_filter_simps fmt_f_1_zero del: One_nat_def)
  have a: "average [] = Finite 0" by (simp add: average_def)
  have q: "fquo (foldl fadd 0 []) (float64_of_int (int (length ([] :: float64 list)))) = NaN"
    by (simp add: fquo_def float64_of_int_def fl64_zero)
  have n: "formatScore (fquo (foldl fadd 0 []) (float64_of_int (int (length ([] :: float64 list))))) =
       ''NaN%''"
    unfolding q by (simp add: formatScore_def)
  have f: "\<forall>scores. average scores =
         Finite (if scores = [] then 0
                 else fdiv (foldl fadd 0 scores) (float64_of_int (int (length scores))))"
    by (rule allI) (rule average_finite)
  have g: "\<forall>scores. 0 < length scores \<longrightarrow>
         average scores = fquo (foldl fadd 0 scores) (float64_of_int (int (length scores)))
         \<and> float64_of_int (int (length scores)) \<noteq> 0"
  proof (intro allI impI conjI)
    fix scores :: "float64 list"
    assume l: "0 < length scores"
    show "average scores = fquo (foldl fadd 0 scores) (float64_of_int (int (length scores)))"
      using l by (simp add: average_def)
    show "float64_of_int (int (length scores)) \<noteq> 0"
      using l by (rule float64_of_length_nonzero)
  qed
  show ?thesis using r s ar as t a q n f g by (intro conjI)
qed

theorem calculateTeamSummary_empty_witness:
  "0 < length [float64_of_int 80, float64_of_int 60]
   \<and> average [float64_of_int 80, float64_of_int 60] =
       fquo (foldl fadd 0 [float64_of_int 80, float64_of_int 60])
         (float64_of_int (int (length [float64_of_int 80, float64_of_int 60])))
   \<and> float64_of_int (int (length [float64_of_int 80, float64_of_int 60])) \<noteq> 0
   \<and> average [float64_of_int 80, float64_of_int 60] = Finite 70
   \<and> average [] = Finite 0
   \<and> avgRecovery (calculateTeamSummary []) = ''N/A''"
proof -
  have l: "0 < length [float64_of_int 80, float64_of_int 60]" by simp
  from calculateTeamSummary_empty
  have g: "\<forall>scores. 0 < length scores \<longrightarrow>
         average scores = fquo (foldl fadd 0 scores) (float64_of_int (int (length scores)))
         \<and> float64_of_int (int (length scores)) \<noteq> 0"
    and a: "average [] = Finite 0"
    and n: "avgRecovery (calculateTeamSummary []) = ''N/A''"
    by blast+
  have v: "average [float64_of_int 80, float64_of_int 60] = Finite 70" by (rule average_80_60)
  show ?thesis using l g [rule_format, OF l] v a n by (intro conjI) blast+
qed

text \<open>
  Claim C10. \<open>formatScore\<close> renders 0 as "N/A" whatever the reason for the 0 (\<open>Finite 0\<close>
  is the float64 zero among the values that an average can take). So when
  every recovery score that the rows carry is 0, the team average is 0 and its field
  reads "N/A", the same text as for the same rows with the recovery scores removed;
  and likewise for the sleep scores.
\<close>

theorem all_zero_average_reads_NA:
  "formatScore (Finite 0) = ''N/A''
   \<and> ((\<forall>r\<in>set rows. \<forall>n. r ''recovery_score'' = Some (VInt64 n) \<longrightarrow> n = 0) \<longrightarrow>
        recoveryNum (calculateTeamSummary rows) = Finite 0
        \<and> avgRecovery (calculateTeamSummary rows) = ''N/A''
        \<and> avgRecovery (calculateTeamSummary rows) =
            avgRecovery (calculateTeamSummary (map (\<lambda>r. r(''recovery_score'' := None)) rows)))
   \<and> ((\<forall>r\<in>set rows. \<forall>n. r ''sleep_score'' = Some (VInt64 n) \<longrightarrow> n = 0) \<longrightarrow>
        sleepNum (calculateTeamSummary rows) = Finite 0
        \<and> avgSleep (calculateTeamSummary rows) = ''N/A''
        \<and> avgSleep (calculateTeamSummary rows) =
            avgSleep (calculateTeamSummary (map (\<lambda>r. r(''sleep_score'' := None)) rows)))"
proof -
  have f0: "formatScore (Finite 0) = ''N/A''" by (simp add: formatScore_def)
  have zeros: "\<forall>x\<in>set (map float64_of_int (List.map_filter (\<lambda>r. asInt64 r key) rows)). x = 0"
    if "\<forall>r\<in>set rows. \<forall>n. r key = Some (VInt64 n) \<longrightarrow> n = 0" for key
  proof
    fix x assume "x \<in> set (map float64_of_int (List.map_filter (\<lambda>r. asInt64 r key) rows))"
    then obtain r n where rn: "r \<in> set rows" "asInt64 r key = Some n" "x = float64_of_int n"
      by (auto simp: map_filter_def)
    have "r key = Some (VInt64 n)" using rn(2) by (simp add: asInt64_iff)
    then have "n = 0" using that rn(1) by blast
    then show "x = 0" using rn(3) by (simp add: float64_of_int_def fl64_zero)
  qed
  have none: "List.map_filter (\<lambda>r. asInt64 r key) (map (\<lambda>r. r(key := None)) rows) = []" for key
    by (simp add: map_filter_def asInt64_def present_def)
  have rec: "recoveryNum (calculateTeamSummary rows) = Finite 0
        \<and> avgRecovery (calculateTeamSummary rows) = ''N/A''
        \<and> avgRecovery (calculateTeamSummary rows) =
            avgRecovery (calculateTeamSummary (map (\<lambda>r. r(''recovery_score'' := None)) rows))"
    if h: "\<forall>r\<in>set rows. \<forall>n. r ''recovery_score'' = Some (VInt64 n) \<longrightarrow> n = 0"
  proof -
    have a: "recoveryNum (calculateTeamSummary rows) = Finite 0"
      unfolding recoveryNum_eq using zeros [OF h] by (rule average_zeros)
    have b: "recoveryNum (calculateTeamSummary (map (\<lambda>r. r(''recovery_score'' := None)) rows)) =
        Finite 0"
      unfolding recoveryNum_eq none by (simp add: average_def)
    show ?thesis by (simp add: avgRecovery_eq a b f0)
  qed
  have slp: "sleepNum (calculateTeamSummary rows) = Finite 0
        \<and> avgSleep (calculateTeamSummary rows) = ''N/A''
        \<and> avgSleep (calculateTeamSummary rows) =
            avgSleep (calculateTeamSummary (map (\<lambda>r. r(''sleep_score'' := None)) rows))"
    if h: "\<forall>r\<in>set rows. \<forall>n. r ''sleep_score'' = Some (VInt64 n) \<longrightarrow> n = 0"
  proof -
    have a: "sleepNum (calculateTeamSummary rows) = Finite 0"
      unfolding sleepNum_eq using zeros [OF h] by (rule average_zeros)
    have b: "sleepNum (calculateTeamSummary (map (\<lambda>r. r(''sleep_score'' := None)) rows)) =
        Finite 0"
      unfolding sleepNum_eq none by (simp add: average_def)
    show ?thesis by (simp add: avgSleep_eq a b f0)
  qed
  show ?thesis using f0 rec slp by blast
qed

theorem all_zero_average_reads_NA_witness:
  "[''recovery_score'' \<mapsto> VInt64 0, ''sleep_score'' \<mapsto> VInt64 0] ''recovery_score'' = Some (VInt64 0)
   \<and> [''recovery_score'' \<mapsto> VInt64 0, ''sleep_score'' \<mapsto> VInt64 0] ''sleep_score'' = Some (VInt64 0)
   \<and> avgRecovery (calculateTeamSummary [[''recovery_score'' \<mapsto> VInt64 0, ''sleep_score'' \<mapsto> VInt64 0]]) = ''N/A''
   \<and> avgSleep (calculateTeamSummary [[''recovery_score'' \<mapsto> VInt64 0, ''sleep_score'' \<mapsto> VInt64 0]]) = ''N/A''"
proof -
  have h1: "\<forall>r\<in>set [[''recovery_score'' \<mapsto> VInt64 0, ''sleep_score'' \<mapsto> VInt64 0]].
      \<forall>n. r ''recovery_score'' = Some (VInt64 n) \<longrightarrow> n = 0"
    by simp
  have h2: "\<forall>r\<in>set [[''recovery_score'' \<mapsto> VInt64 0, ''sleep_score'' \<mapsto> VInt64 0]].
      \<forall>n. r ''sleep_score'' = Some (VInt64 n) \<longrightarrow> n = 0"
    by simp
  have a: "avgRecovery (calculateTeamSummary [[''recovery_score'' \<mapsto> VInt64 0, ''sleep_score'' \<mapsto> VInt64 0]]) = ''N/A''"
    using h1 all_zero_average_reads_NA
        [of "[[''recovery_score'' \<mapsto> VInt64 0, ''sleep_score'' \<mapsto> VInt64 0]]"]
    by blast
  have b: "avgSleep (calculateTeamSummary [[''recovery_score'' \<mapsto> VInt64 0, ''sleep_score'' \<mapsto> VInt64 0]]) = ''N/A''"
    using h2 all_zero_average_reads_NA
        [of "[[''recovery_score'' \<mapsto> VInt64 0, ''sleep_score'' \<mapsto> VInt64 0]]"]
    by blast
  show ?thesis using a b by simp
qed

text \<open>
  Claim C8. On the empty list \<open>FormatMorningStandup\<close> returns the message that asks to
  connect the accounts. On a single row that carries neither a recovery nor a sleep
  score it returns another text, the full standup: header, overview with "N/A" for
  both averages, and the line of the user with the placeholder "No recent data".
\<close>

theorem standup_empty_differs_from_no_metrics:
  assumes "\<not> present row ''recovery_score''" and "\<not> present row ''sleep_score''"
  shows "FormatMorningStandup weekday [] =
           e_sunrise @ '' *Good Morning Team!* '' @ e_sunrise @ NL @ NL @
           ''No WHOOP data available yet. Connect your WHOOP accounts with `/connect-whoop` to see your daily stats! '' @
           e_rocket
       \<and> FormatMorningStandup weekday [row] \<noteq> FormatMorningStandup weekday []
       \<and> formatUserData row =
           bullet @ '' **'' @
           (if getString row ''real_name'' = [] then getString row ''username''
            else getString row ''real_name'') @
           '':** No recent data '' @ e_chart
       \<and> FormatMorningStandup weekday [row] =
           e_sunrise @ '' *Good Morning Team! Here's how everyone's feeling today:* '' @ e_sunrise @
           NL @ NL @
           e_chart @ '' *Team Overview:* '' @ e_sos @ '' Team needs extra care today!'' @ NL @
           bullet @ '' Average Recovery: N/A'' @ NL @
           bullet @ '' Average Sleep Score: N/A'' @ NL @
           bullet @ '' Team Sleep Hours: '' @ totalSleep (calculateTeamSummary [row]) @ NL @ NL @
           e_busts @ '' *Individual Stats:*'' @ NL @
           formatUserData row @ NL @ NL @
           generateMotivationalFooter weekday (calculateTeamSummary [row])"
proof -
  have e: "FormatMorningStandup weekday [] =
           e_sunrise @ '' *Good Morning Team!* '' @ e_sunrise @ NL @ NL @
           ''No WHOOP data available yet. Connect your WHOOP accounts with `/connect-whoop` to see your daily stats! '' @
           e_rocket"
    by (simp add: FormatMorningStandup_def noDataMessage_def)
  have d: "FormatMorningStandup weekday [row] \<noteq> FormatMorningStandup weekday []"
    by (simp add: FormatMorningStandup_def noDataMessage_def standupHeader_def e_sunrise_def Let_def)
  have u: "formatUserData row =
           bullet @ '' **'' @
           (if getString row ''real_name'' = [] then getString row ''username''
            else getString row ''real_name'') @
           '':** No recent data '' @ e_chart"
    using assms by (simp add: formatUserData_def Let_def)
  have r: "recoveryNum (calculateTeamSummary [row]) = Finite 0"
    using assms(1) by (simp add: recoveryNum_eq map_filter_simps asInt64_absent average_def)
  have s: "sleepNum (calculateTeamSummary [row]) = Finite 0"
    using assms(2) by (simp add: sleepNum_eq map_filter_simps asInt64_absent average_def)
  have f: "FormatMorningStandup weekday [row] =
           e_sunrise @ '' *Good Morning Team! Here's how everyone's feeling today:* '' @ e_sunrise @
           NL @ NL @
           e_chart @ '' *Team Overview:* '' @ e_sos @ '' Team needs extra care today!'' @ NL @
           bullet @ '' Average Recovery: N/A'' @ NL @
           bullet @ '' Average Sleep Score: N/A'' @ NL @
           bullet @ '' Team Sleep Hours: '' @ totalSleep (calculateTeamSummary [row]) @ NL @ NL @
           e_busts @ '' *Individual Stats:*'' @ NL @
           formatUserData row @ NL @ NL @
           generateMotivationalFooter weekday (calculateTeamSummary [row])"
    by (simp add: FormatMorningStandup_def standupHeader_def Let_def avgRecovery_eq avgSleep_eq
          emoji_eq r s formatScore_def mood_zero)
  show ?thesis using e d u f by (intro conjI)
qed

theorem standup_empty_differs_from_no_metrics_witness:
  "\<not> present Map.empty ''recovery_score'' \<and> \<not> present Map.empty ''sleep_score''
   \<and> FormatMorningStandup Monday [Map.empty] \<noteq> FormatMorningStandup Monday []
   \<and> formatUserData Map.empty = bullet @ '' **:** No recent data '' @ e_chart"
proof -
  have h1: "\<not> present Map.empty ''recovery_score''" by (simp add: present_def)
  have h2: "\<not> present Map.empty ''sleep_score''" by (simp add: present_def)
  have g: "getString Map.empty ''real_name'' = []" "getString Map.empty ''username'' = []"
    by (simp_all add: getString_def present_def)
  show ?thesis
    using h1 h2 standup_empty_differs_from_no_metrics [OF h1 h2, of Monday] g by simp
qed

section \<open>Properties of the store and the service\<close>

lemma time_Sub_gt_Hour: "time_Sub t u > Hour \<longleftrightarrow> t - u > Hour"
  by (simp add: time_Sub_def Let_def Hour_def Second_def maxDuration_def minDuration_def)

lemma step_simps [simp]:
  "whoop_connections (step w) = whoop_connections w"
  "whoop_recovery (step w) = whoop_recovery w"
  "whoop_sleep (step w) = whoop_sleep w"
  "trace (step w) = trace w"
  "tick (step w) = Suc (tick w)"
  by (simp_all add: step_def)

lemma emit_simps [simp]:
  "whoop_connections (emit ev w) = whoop_connections w"
  "whoop_recovery (emit ev w) = whoop_recovery w"
  "whoop_sleep (emit ev w) = whoop_sleep w"
  "trace (emit ev w) = trace w @ [ev]"
  "tick (emit ev w) = tick w"
  by (simp_all add: emit_def)

lemma seq_sleep_simps [simp]:
  "seq_sleep (step w) = seq_sleep w" "seq_sleep (emit ev w) = seq_sleep w"
  by (simp_all add: step_def emit_def)

text \<open>What the loop of \<^verbatim>\<open>syncSleepData\<close> leaves in the table for one record.\<close>

lemma storeSleep_single:
  assumes "db_fault e (Suc (tick w)) = None"
  shows "whoop_sleep (storeSleep e connection [sleep] w) =
     filter (\<lambda>r. \<not> (slp_UserID r = UserID connection \<and>
                      slp_Date r = ztime_Truncate (sd_End sleep) (24 * Hour)))
       (whoop_sleep w) @
     [(sleepModel (conv_oor e) connection sleep (clock e (tick w)))\<lparr>slp_ID := seq_sleep w + 1\<rparr>]"
  using assms
  by (simp add: time_Now_def UpsertWHOOPSleep_def db_Exec_def insert_or_replace_sleep_def
        Let_def sleepModel_def)

lemma refreshRequests_append [simp]:
  "refreshRequests (xs @ ys) = refreshRequests xs @ refreshRequests ys"
  by (induction xs rule: refreshRequests.induct) simp_all

lemma Refresh_far:
  "ExpiresAt c - clock e (tick w) > Hour \<Longrightarrow> RefreshTokenIfNeeded e c w = (Inr c, step w)"
  by (simp add: RefreshTokenIfNeeded_def time_Now_def time_Sub_gt_Hour)

lemma Refresh_near:
  "ExpiresAt c - clock e (tick w) \<le> Hour \<Longrightarrow>
   refreshRequests (trace (snd (RefreshTokenIfNeeded e c w))) =
     refreshRequests (trace w) @ [RefreshToken c]"
  by (simp add: RefreshTokenIfNeeded_def time_Now_def time_Sub_gt_Hour RefreshAccessToken_def
        DeactivateWHOOPConnection_def UpsertWHOOPConnection_def db_Exec_def Let_def
        deactivate_rows_def insert_or_replace_connection_def
      split: sum.splits prod.splits option.splits)


lemma deact_inactive:
  "\<forall>r\<in>set cs. UserID r = v \<longrightarrow> \<not> Active r \<Longrightarrow>
   \<forall>r\<in>set (map (\<lambda>r. if UserID r = u then r\<lparr>Active := False\<rparr> else r) cs).
      UserID r = v \<longrightarrow> \<not> Active r"
  by auto

lemma filter_not_user: "u \<notin> set (map UserID (filter (\<lambda>r. UserID r \<noteq> u) cs))"
  by auto

lemma touchedE:
  assumes "touched u act cs cs'"
  obtains (same) "cs' = cs"
    | (deact) "cs' = map (\<lambda>r. if UserID r = u then r\<lparr>Active := False\<rparr> else r) cs"
    | (repl) c where "UserID c = u" "Active c \<longrightarrow> act" "cs' = filter (\<lambda>r. UserID r \<noteq> u) cs @ [c]"
  using assms unfolding touched_def by blast

lemma touched_unique:
  assumes "touched u act cs cs'" "distinct (map UserID cs)"
  shows "distinct (map UserID cs')"
  using assms(1)
proof (cases rule: touchedE)
  case same
  then show ?thesis using assms(2) by simp
next
  case deact
  have "map UserID cs' = map UserID cs"
    unfolding deact by (simp add: comp_def if_distrib cong: if_cong)
  then show ?thesis using assms(2) by simp
next
  case (repl c)
  have "distinct (map UserID (filter (\<lambda>r. UserID r \<noteq> u) cs))"
    using assms(2) by (rule distinct_map_filter)
  then show ?thesis unfolding repl(3) using repl(1) filter_not_user [of u cs] by simp
qed

lemma touched_inactive_other:
  assumes "touched u act cs cs'" "u \<noteq> v" "\<forall>r\<in>set cs. UserID r = v \<longrightarrow> \<not> Active r"
  shows "\<forall>r\<in>set cs'. UserID r = v \<longrightarrow> \<not> Active r"
  using assms(1)
proof (cases rule: touchedE)
  case same
  then show ?thesis using assms(3) by simp
next
  case deact
  show ?thesis unfolding deact using assms(3) by (rule deact_inactive)
next
  case (repl c)
  show ?thesis unfolding repl(3) using assms(2,3) repl(1) by simp
qed

lemma touched_inactive_same:
  assumes "touched u False cs cs'" "\<forall>r\<in>set cs. UserID r = u \<longrightarrow> \<not> Active r"
  shows "\<forall>r\<in>set cs'. UserID r = u \<longrightarrow> \<not> Active r"
  using assms(1)
proof (cases rule: touchedE)
  case same
  then show ?thesis using assms(2) by simp
next
  case deact
  show ?thesis unfolding deact using assms(2) by (rule deact_inactive)
next
  case (repl c)
  show ?thesis unfolding repl(3) using assms(2) repl(1,2) by simp
qed

lemma Upsert_touched:
  "touched (UserID c) (Active c) (whoop_connections w) (whoop_connections (snd (UpsertWHOOPConnection e c w)))"
  unfolding UpsertWHOOPConnection_def db_Exec_def touched_def insert_or_replace_connection_def Let_def
  by (cases "db_fault e (tick w)") (auto intro: exI [of _ "c\<lparr>ID := seq_connections w + 1\<rparr>"])

lemma Deactivate_touched:
  "touched u act (whoop_connections w) (whoop_connections (snd (DeactivateWHOOPConnection e u w)))"
  unfolding DeactivateWHOOPConnection_def db_Exec_def touched_def deactivate_rows_def
  by (cases "db_fault e (tick w)") auto

lemma touched_refl: "touched u act cs cs" by (simp add: touched_def)

lemma Upsert_touched':
  assumes "UserID c' = u" "Active c' = a" "whoop_connections w' = cs"
  shows "touched u a cs (whoop_connections (snd (UpsertWHOOPConnection e c' w')))"
  using Upsert_touched [of c' w' e] assms by simp

lemma Deactivate_touched':
  assumes "whoop_connections w' = cs"
  shows "touched u a cs (whoop_connections (snd (DeactivateWHOOPConnection e u w')))"
  using Deactivate_touched [of u a w' e] assms by simp

lemma Refresh_snd:
  "snd (RefreshTokenIfNeeded e c w) =
     (if ExpiresAt c - clock e (tick w) > Hour then step w
      else (let w2 = step (emit (RefreshRequest (RefreshToken c))
                        (emit (LogLine (LogRefreshing (UserID c))) (step w)))
            in case refresh_resp e (Suc (tick w)) (RefreshToken c) of
                 Inl err \<Rightarrow> snd (DeactivateWHOOPConnection e (UserID c) w2)
               | Inr tokenResp \<Rightarrow>
                   snd (UpsertWHOOPConnection e
                     (c\<lparr> AccessToken := tok_AccessToken tokenResp,
                         RefreshToken := tok_RefreshToken tokenResp,
                         ExpiresAt := time_Add (clock e (Suc (Suc (tick w))))
                                        (wrap64 (tok_ExpiresIn tokenResp * Second)) \<rparr>)
                     (step w2))))"
  unfolding RefreshTokenIfNeeded_def time_Now_def RefreshAccessToken_def Let_def
  by (simp add: case_prod_beta time_Sub_gt_Hour split: sum.splits option.splits)

lemma Refresh_touched:
  "touched (UserID c) (Active c) (whoop_connections w)
     (whoop_connections (snd (RefreshTokenIfNeeded e c w)))"
  unfolding Refresh_snd Let_def
  by (simp add: touched_refl Upsert_touched' Deactivate_touched' split: sum.splits)

lemma db_Exec_conns_same:
  "(\<And>w. whoop_connections (stmt w) = whoop_connections w) \<Longrightarrow>
   whoop_connections (snd (db_Exec e stmt w)) = whoop_connections w"
  by (simp add: db_Exec_def split: option.splits)

lemma UpsertRecovery_conns [simp]:
  "whoop_connections (snd (UpsertWHOOPRecovery e r w)) = whoop_connections w"
  unfolding UpsertWHOOPRecovery_def
  by (rule db_Exec_conns_same) (simp add: insert_or_replace_recovery_def Let_def)

lemma UpsertSleep_conns [simp]:
  "whoop_connections (snd (UpsertWHOOPSleep e r w)) = whoop_connections w"
  unfolding UpsertWHOOPSleep_def
  by (rule db_Exec_conns_same) (simp add: insert_or_replace_sleep_def Let_def)

lemma storeRecovery_conns [simp]:
  "whoop_connections (storeRecovery e c rs w) = whoop_connections w"
proof (induction rs arbitrary: w)
  case Nil
  show ?case by simp
next
  case (Cons r rs)
  have "whoop_connections (snd (UpsertWHOOPRecovery e
          (recoveryModel (conv_oor e) c r (clock e (tick w))) (step w))) = whoop_connections w"
    by simp
  then show ?case
    by (simp add: Cons.IH time_Now_def case_prod_beta split: option.splits)
qed

lemma storeSleep_conns [simp]:
  "whoop_connections (storeSleep e c rs w) = whoop_connections w"
proof (induction rs arbitrary: w)
  case Nil
  show ?case by simp
next
  case (Cons r rs)
  show ?case
    by (simp add: Cons.IH time_Now_def case_prod_beta Let_def split: option.splits)
qed

lemma syncRecoveryData_conns [simp]:
  "whoop_connections (snd (syncRecoveryData e c s t w)) = whoop_connections w"
  by (simp add: syncRecoveryData_def GetRecovery_def split: sum.splits)

lemma syncSleepData_conns [simp]:
  "whoop_connections (snd (syncSleepData e c s t w)) = whoop_connections w"
  by (simp add: syncSleepData_def GetSleep_def split: sum.splits)

lemma GetConn_snd [simp]: "snd (GetWHOOPConnection e u w) = step w"
  by (simp add: GetWHOOPConnection_def split: option.splits)

lemma GetConn_Inr:
  assumes "fst (GetWHOOPConnection e u w) = Inr c"
  shows "UserID c = u \<and> Active c"
proof -
  have "find (\<lambda>r. UserID r = u \<and> Active r) (whoop_connections w) = Some c"
    using assms by (simp add: GetWHOOPConnection_def split: option.splits)
  then show ?thesis by (auto simp: find_Some_iff)
qed

lemma GetConn_inactive:
  assumes "inactive u w"
  shows "\<exists>err. fst (GetWHOOPConnection e u w) = Inl err"
proof -
  have "find (\<lambda>r. UserID r = u \<and> Active r) (whoop_connections w) = None"
    using assms by (auto simp: inactive_def find_None_iff)
  then show ?thesis by (simp add: GetWHOOPConnection_def split: option.splits)
qed

lemma SyncUser_NoConnection:
  assumes "inactive u w"
  shows "\<exists>err. SyncUserData e u w = (Some (NoConnection u err), step w)"
proof -
  obtain err where "fst (GetWHOOPConnection e u w) = Inl err"
    using GetConn_inactive [OF assms] by blast
  then have "GetWHOOPConnection e u w = (Inl err, step w)"
    by (metis GetConn_snd prod.collapse)
  then show ?thesis by (simp add: SyncUserData_def)
qed

lemma SyncUser_conns:
  "whoop_connections (snd (SyncUserData e u w)) =
     (case fst (GetWHOOPConnection e u w) of
        Inl err \<Rightarrow> whoop_connections w
      | Inr c \<Rightarrow> whoop_connections (snd (RefreshTokenIfNeeded e c (step w))))"
  unfolding SyncUserData_def time_Now_def Let_def
  by (simp add: case_prod_beta split: sum.splits option.splits)

lemma SyncUser_touched:
  "touched u True (whoop_connections w) (whoop_connections (snd (SyncUserData e u w)))"
proof (cases "fst (GetWHOOPConnection e u w)")
  case (Inl err)
  then show ?thesis by (simp add: SyncUser_conns touched_refl)
next
  case (Inr c)
  have c: "UserID c = u" "Active c" using GetConn_Inr [OF Inr] by simp_all
  have "touched (UserID c) (Active c) (whoop_connections (step w))
          (whoop_connections (snd (RefreshTokenIfNeeded e c (step w))))"
    by (rule Refresh_touched)
  then show ?thesis using c Inr by (simp add: SyncUser_conns)
qed

lemma SyncUser_inactive:
  assumes "inactive v w"
  shows "inactive v (snd (SyncUserData e u w))"
proof (cases "u = v")
  case True
  obtain err where "SyncUserData e u w = (Some (NoConnection u err), step w)"
    using SyncUser_NoConnection assms True by blast
  then show ?thesis using assms by (simp add: inactive_def)
next
  case False
  show ?thesis
    unfolding inactive_def
    using SyncUser_touched False assms [unfolded inactive_def]
    by (rule touched_inactive_other)
qed

lemma syncOne_conns:
  "whoop_connections (syncOne e c w) = whoop_connections (snd (SyncUserData e (UserID c) w))"
  by (simp add: syncOne_def case_prod_beta split: option.splits)

lemma syncOne_inactive:
  assumes "inactive v w"
  shows "inactive v (syncOne e c w)"
  using SyncUser_inactive [OF assms, of e "UserID c"]
  by (simp add: inactive_def syncOne_conns)

lemma syncEach_inactive:
  "inactive v w \<Longrightarrow> inactive v (syncEach e cs w)"
  by (induction cs arbitrary: w) (simp_all add: syncOne_inactive)

lemma GetAll_snd [simp]: "snd (GetAllActiveWHOOPConnections e w) = step w"
  by (simp add: GetAllActiveWHOOPConnections_def split: option.splits)

text \<open>
  The loop over the rows: without a failure it returns every row; a scan that fails
  within the rows returns its error; a failure of \<^verbatim>\<open>rows.Next\<close> cuts the list.
\<close>

lemma scanRows_complete: "scanRows None i rows connections = Inr (connections @ rows)"
  by (induction rows arbitrary: i connections) simp_all

lemma scanRows_scan_fails:
  "i \<le> k \<Longrightarrow> k < i + length rows \<Longrightarrow>
   scanRows (Some (ScanFails k err)) i rows connections = Inl err"
proof (induction rows arbitrary: i connections)
  case Nil
  then show ?case by simp
next
  case (Cons conn rest)
  show ?case
  proof (cases "k = i")
    case True
    then show ?thesis by simp
  next
    case False
    then have "Suc i \<le> k" "k < Suc i + length rest" using Cons.prems by simp_all
    then have "scanRows (Some (ScanFails k err)) (Suc i) rest (connections @ [conn]) = Inl err"
      by (rule Cons.IH)
    then show ?thesis using False by simp
  qed
qed

lemma scanRows_cut:
  "i \<le> k \<Longrightarrow>
   scanRows (Some (NextFails k)) i rows connections = Inr (connections @ take (k - i) rows)"
proof (induction rows arbitrary: i connections)
  case Nil
  then show ?case by simp
next
  case (Cons conn rest)
  show ?case
  proof (cases "k = i")
    case True
    then show ?thesis by simp
  next
    case False
    then have le: "Suc i \<le> k" using Cons.prems by simp
    then have "scanRows (Some (NextFails k)) (Suc i) rest (connections @ [conn]) =
        Inr ((connections @ [conn]) @ take (k - Suc i) rest)"
      by (rule Cons.IH)
    moreover have "take (k - i) (conn # rest) = conn # take (k - Suc i) rest"
      using le by (simp add: take_Cons')
    ultimately show ?thesis using False by simp
  qed
qed

lemma GetAll_query_fails:
  "db_fault e (tick w) = Some err \<Longrightarrow> fst (GetAllActiveWHOOPConnections e w) = Inl err"
  by (simp add: GetAllActiveWHOOPConnections_def)

lemma GetAll_scan_fails:
  "db_fault e (tick w) = None \<Longrightarrow> rows_fault e (tick w) = Some (ScanFails k err) \<Longrightarrow>
   k < length (filter Active (whoop_connections w)) \<Longrightarrow>
   fst (GetAllActiveWHOOPConnections e w) = Inl err"
  by (simp add: GetAllActiveWHOOPConnections_def scanRows_scan_fails)

lemma GetAll_complete:
  "db_fault e (tick w) = None \<Longrightarrow> rows_fault e (tick w) = None \<Longrightarrow>
   fst (GetAllActiveWHOOPConnections e w) = Inr (filter Active (whoop_connections w))"
  by (simp add: GetAllActiveWHOOPConnections_def scanRows_complete)

lemma GetAll_cut:
  "db_fault e (tick w) = None \<Longrightarrow> rows_fault e (tick w) = Some (NextFails k) \<Longrightarrow>
   fst (GetAllActiveWHOOPConnections e w) = Inr (take k (filter Active (whoop_connections w)))"
  by (simp add: GetAllActiveWHOOPConnections_def scanRows_cut)

lemma SyncAll_snd:
  "snd (SyncAllUsersData e w) =
     (case fst (GetAllActiveWHOOPConnections e w) of
        Inl err \<Rightarrow> step w
      | Inr cs \<Rightarrow> emit (LogLine LogCompleted)
                   (syncEach e cs (emit (LogLine (LogSyncing (length cs))) (step w))))"
proof -
  have pair: "GetAllActiveWHOOPConnections e w = (fst (GetAllActiveWHOOPConnections e w), step w)"
    using GetAll_snd [of e w] by (simp add: prod_eq_iff)
  show ?thesis
    unfolding SyncAllUsersData_def by (subst pair) (simp split: sum.splits)
qed

lemma SyncAll_inactive:
  assumes "inactive v w"
  shows "inactive v (snd (SyncAllUsersData e w))"
proof (cases "fst (GetAllActiveWHOOPConnections e w)")
  case (Inl err)
  then show ?thesis using assms by (simp add: SyncAll_snd inactive_def)
next
  case (Inr cs)
  have "inactive v (emit (LogLine (LogSyncing (length cs))) (step w))"
    using assms by (simp add: inactive_def)
  then have "inactive v (syncEach e cs (emit (LogLine (LogSyncing (length cs))) (step w)))"
    by (rule syncEach_inactive)
  then show ?thesis using Inr by (simp add: SyncAll_snd inactive_def)
qed

lemma Disconnect_inactive:
  assumes "inactive v w"
  shows "inactive v (snd (DisconnectUser e u w))"
proof -
  have t: "touched u False (whoop_connections w) (whoop_connections (snd (DeactivateWHOOPConnection e u w)))"
    by (rule Deactivate_touched)
  show ?thesis
  proof (cases "u = v")
    case True
    show ?thesis unfolding inactive_def DisconnectUser_def True [symmetric]
      using t assms [unfolded inactive_def True [symmetric]] by (rule touched_inactive_same)
  next
    case False
    show ?thesis unfolding inactive_def DisconnectUser_def
      using t False assms [unfolded inactive_def] by (rule touched_inactive_other)
  qed
qed

lemma perform_inactive:
  "syncOnly oper \<Longrightarrow> inactive v w \<Longrightarrow> inactive v (perform e oper w)"
  by (cases oper) (simp_all add: SyncUser_inactive SyncAll_inactive Disconnect_inactive)

lemma run_inactive:
  "\<forall>oper\<in>set ops. syncOnly oper \<Longrightarrow> inactive v w \<Longrightarrow> inactive v (run e ops w)"
  by (induction ops arbitrary: w) (simp_all add: perform_inactive)

lemma touched_other_rows:
  assumes "touched u act cs cs'" "v \<noteq> u"
  shows "filter (\<lambda>r. UserID r = v) cs' = filter (\<lambda>r. UserID r = v) cs"
  using assms(1)
proof (cases rule: touchedE)
  case same
  then show ?thesis by simp
next
  case deact
  show ?thesis unfolding deact using assms(2)
    by (induction cs) simp_all
next
  case (repl c)
  have "filter (\<lambda>r. UserID r = v) (filter (\<lambda>r. UserID r \<noteq> u) cs) = filter (\<lambda>r. UserID r = v) cs"
    using assms(2) by (induction cs) simp_all
  then show ?thesis unfolding repl(3) using assms(2) repl(1) by simp
qed

lemma unique_users_count:
  assumes "distinct (map UserID cs)"
  shows "length (filter (\<lambda>r. UserID r = u \<and> Active r) cs) \<le> 1"
  using assms
proof (induction cs)
  case Nil
  then show ?case by simp
next
  case (Cons a cs)
  have IH: "length (filter (\<lambda>r. UserID r = u \<and> Active r) cs) \<le> 1"
    using Cons by simp
  show ?case
  proof (cases "UserID a = u")
    case True
    then have "u \<notin> UserID ` set cs" using Cons.prems by auto
    then have "filter (\<lambda>r. UserID r = u \<and> Active r) cs = []"
      by (auto simp: filter_empty_conv)
    then show ?thesis by simp
  next
    case False
    then show ?thesis using IH by simp
  qed
qed

lemma SyncUser_unique:
  assumes "unique_users w"
  shows "unique_users (snd (SyncUserData e u w))"
  unfolding unique_users_def
  using SyncUser_touched assms [unfolded unique_users_def] by (rule touched_unique)

lemma syncOne_unique:
  assumes "unique_users w"
  shows "unique_users (syncOne e c w)"
  using SyncUser_unique [OF assms, of e "UserID c"]
  by (simp add: unique_users_def syncOne_conns)

lemma syncEach_unique:
  "unique_users w \<Longrightarrow> unique_users (syncEach e cs w)"
  by (induction cs arbitrary: w) (simp_all add: syncOne_unique)

lemma SyncAll_unique:
  assumes "unique_users w"
  shows "unique_users (snd (SyncAllUsersData e w))"
proof (cases "fst (GetAllActiveWHOOPConnections e w)")
  case (Inl err)
  then show ?thesis using assms by (simp add: SyncAll_snd unique_users_def)
next
  case (Inr cs)
  have "unique_users (emit (LogLine (LogSyncing (length cs))) (step w))"
    using assms by (simp add: unique_users_def)
  then have "unique_users (syncEach e cs (emit (LogLine (LogSyncing (length cs))) (step w)))"
    by (rule syncEach_unique)
  then show ?thesis using Inr by (simp add: SyncAll_snd unique_users_def)
qed

lemma Refresh_unique:
  assumes "unique_users w"
  shows "unique_users (snd (RefreshTokenIfNeeded e c w))"
  unfolding unique_users_def
  using Refresh_touched assms [unfolded unique_users_def] by (rule touched_unique)

lemma Disconnect_unique:
  assumes "unique_users w"
  shows "unique_users (snd (DisconnectUser e u w))"
  unfolding unique_users_def DisconnectUser_def
  using Deactivate_touched [of u True w e] assms [unfolded unique_users_def]
  by (rule touched_unique)

lemma Callback_conns:
  "whoop_connections (snd (HandleOAuthCallback e code state w)) = whoop_connections w \<or>
   (\<exists>c w'. whoop_connections w' = whoop_connections w \<and>
      whoop_connections (snd (HandleOAuthCallback e code state w)) =
        whoop_connections (snd (UpsertWHOOPConnection e c w')))"
proof -
  have up: "\<exists>c' w''. whoop_connections w'' = whoop_connections w \<and>
      whoop_connections (snd (UpsertWHOOPConnection e c w')) =
        whoop_connections (snd (UpsertWHOOPConnection e c' w''))"
    if "whoop_connections w' = whoop_connections w" for c w'
    using that by blast
  show ?thesis
    unfolding HandleOAuthCallback_def time_Now_def ExchangeCodeForToken_def GetUserProfile_def Let_def
    by (simp add: case_prod_beta up split: sum.splits option.splits)
qed

lemma Callback_unique:
  assumes "unique_users w"
  shows "unique_users (snd (HandleOAuthCallback e code state w))"
proof -
  consider (same) "whoop_connections (snd (HandleOAuthCallback e code state w)) = whoop_connections w"
    | (ups) c w' where "whoop_connections w' = whoop_connections w"
        "whoop_connections (snd (HandleOAuthCallback e code state w)) =
           whoop_connections (snd (UpsertWHOOPConnection e c w'))"
    using Callback_conns [of e code state w] by blast
  then show ?thesis
  proof cases
    case same
    then show ?thesis using assms by (simp add: unique_users_def)
  next
    case ups
    have "touched (UserID c) (Active c) (whoop_connections w)
            (whoop_connections (snd (UpsertWHOOPConnection e c w')))"
      using ups(1) by (intro Upsert_touched') simp_all
    then have "distinct (map UserID (whoop_connections (snd (UpsertWHOOPConnection e c w'))))"
      using assms [unfolded unique_users_def] by (rule touched_unique)
    then show ?thesis by (simp add: unique_users_def ups(2))
  qed
qed

lemma perform_unique:
  "unique_users w \<Longrightarrow> unique_users (perform e oper w)"
  by (cases oper)
    (simp_all add: Callback_unique Refresh_unique SyncUser_unique SyncAll_unique Disconnect_unique)

lemma run_unique:
  "unique_users w \<Longrightarrow> unique_users (run e ops w)"
  by (induction ops arbitrary: w) (simp_all add: perform_unique)

lemma syncEach_foldl:
  "syncEach e cs w = foldl (\<lambda>w c. syncOne e c w) w cs"
  by (induction cs arbitrary: w) simp_all

lemma Refresh_fst_fail:
  assumes "ExpiresAt c - clock e (tick w) \<le> Hour"
    and "refresh_resp e (Suc (tick w)) (RefreshToken c) = Inl err"
  shows "fst (RefreshTokenIfNeeded e c w) = Inl (RefreshFailed (UserID c) err)"
  using assms
  unfolding RefreshTokenIfNeeded_def time_Now_def RefreshAccessToken_def Let_def
  by (simp add: case_prod_beta time_Sub_gt_Hour)

lemma Refresh_snd_fail:
  assumes "ExpiresAt c - clock e (tick w) \<le> Hour"
    and "refresh_resp e (Suc (tick w)) (RefreshToken c) = Inl err"
    and "db_fault e (Suc (Suc (tick w))) = None"
  shows "whoop_connections (snd (RefreshTokenIfNeeded e c w)) =
     map (\<lambda>r. if UserID r = UserID c then r\<lparr>Active := False\<rparr> else r) (whoop_connections w)"
  using assms
  unfolding Refresh_snd Let_def DeactivateWHOOPConnection_def db_Exec_def deactivate_rows_def
  by simp

lemma Refresh_fst_ok:
  assumes "ExpiresAt c - clock e (tick w) \<le> Hour"
    and "refresh_resp e (Suc (tick w)) (RefreshToken c) = Inr tokenResp"
    and "db_fault e (Suc (Suc (Suc (tick w)))) = None"
  shows "fst (RefreshTokenIfNeeded e c w) =
     Inr (c\<lparr> AccessToken := tok_AccessToken tokenResp,
             RefreshToken := tok_RefreshToken tokenResp,
             ExpiresAt := time_Add (clock e (Suc (Suc (tick w))))
                            (wrap64 (tok_ExpiresIn tokenResp * Second)) \<rparr>)"
  using assms
  unfolding RefreshTokenIfNeeded_def time_Now_def RefreshAccessToken_def Let_def
    UpsertWHOOPConnection_def db_Exec_def
  by (simp add: case_prod_beta time_Sub_gt_Hour)

lemma index_colon_prefix:
  "CHR '':'' \<notin> set u \<Longrightarrow> index_colon (u @ CHR '':'' # rest) = Some (length u)"
  by (induction u) auto

lemma state_userID_prefix:
  "CHR '':'' \<notin> set u \<Longrightarrow> state_userID (u @ '':'' @ rnd) = u"
  by (simp add: state_userID_def index_colon_prefix)

lemma length_EncodeToString: "length (EncodeToString bytes) = 2 * length bytes"
  by (induction bytes) (simp_all add: EncodeToString_def)

lemma hexdigit_in: "hexdigit n \<in> set ''0123456789abcdef''"
proof -
  have "n mod 16 < length ''0123456789abcdef''" by simp
  then show ?thesis unfolding hexdigit_def by (rule nth_mem)
qed

lemma set_EncodeToString: "set (EncodeToString bytes) \<subseteq> set ''0123456789abcdef''"
proof (induction bytes)
  case Nil
  show ?case by (simp add: EncodeToString_def)
next
  case (Cons b bytes)
  have "EncodeToString (b # bytes) = hexdigit (b div 16) # hexdigit b # EncodeToString bytes"
    by (simp add: EncodeToString_def)
  then show ?case using Cons hexdigit_in [of "b div 16"] hexdigit_in [of b]
    by (simp only: set_simps insert_subset)
qed

lemma Callback_ok:
  assumes "10 \<le> length state" and "state_userID state \<noteq> []"
    and "exchange_resp e (tick w) code = Inr tokenResp"
    and "profile_resp e (Suc (tick w)) (tok_AccessToken tokenResp) = Inr profile"
    and "db_fault e (Suc (Suc (Suc (Suc (tick w))))) = None"
  shows "fst (HandleOAuthCallback e code state w) =
     Inr \<lparr> ID = 0,
           UserID = state_userID state,
           WHOOPUserID = fmt_d (prof_UserID profile),
           AccessToken = tok_AccessToken tokenResp,
           RefreshToken = tok_RefreshToken tokenResp,
           ExpiresAt = time_Add (clock e (Suc (Suc (tick w)))) (wrap64 (tok_ExpiresIn tokenResp * Second)),
           ConnectedAt = clock e (Suc (Suc (Suc (tick w)))),
           Active = True \<rparr>"
  using assms
  unfolding HandleOAuthCallback_def time_Now_def ExchangeCodeForToken_def GetUserProfile_def
    UpsertWHOOPConnection_def db_Exec_def Let_def
  by (simp add: case_prod_beta)

section \<open>The claims about the service\<close>

text \<open>
  Claim C1, as amended. Let the expiry be within one hour of the clock reading of the
  call, let the provider reject the refresh, and let the database execute the
  deactivating UPDATE (the third interaction of the call; the code drops the error of
  that statement). Then \<open>RefreshTokenIfNeeded\<close> returns the refresh error, and in the
  state it returns no row of the user is active. After any further run of
  \<open>SyncUserData\<close>, \<open>SyncAllUsersData\<close> and \<open>DisconnectUser\<close> calls, against any
  outside, \<open>SyncUserData\<close> for that user returns the NoConnection error and does nothing
  but the lookup: no refresh request is sent.
\<close>

theorem failed_refresh_deactivates:
  assumes "ExpiresAt c - clock e (tick w) \<le> Hour"
    and "refresh_resp e (Suc (tick w)) (RefreshToken c) = Inl err"
    and "db_fault e (Suc (Suc (tick w))) = None"
    and "\<forall>oper\<in>set ops. syncOnly oper"
  shows "fst (RefreshTokenIfNeeded e c w) = Inl (RefreshFailed (UserID c) err)
       \<and> inactive (UserID c) (snd (RefreshTokenIfNeeded e c w))
       \<and> (\<exists>dberr. SyncUserData e' (UserID c) (run e' ops (snd (RefreshTokenIfNeeded e c w))) =
             (Some (NoConnection (UserID c) dberr),
              step (run e' ops (snd (RefreshTokenIfNeeded e c w)))))
       \<and> refreshRequests
            (trace (snd (SyncUserData e' (UserID c) (run e' ops (snd (RefreshTokenIfNeeded e c w)))))) =
           refreshRequests (trace (run e' ops (snd (RefreshTokenIfNeeded e c w))))"
proof -
  have a: "fst (RefreshTokenIfNeeded e c w) = Inl (RefreshFailed (UserID c) err)"
    using assms(1,2) by (rule Refresh_fst_fail)
  have b: "inactive (UserID c) (snd (RefreshTokenIfNeeded e c w))"
    unfolding inactive_def Refresh_snd_fail [OF assms(1,2,3)] by auto
  have "inactive (UserID c) (run e' ops (snd (RefreshTokenIfNeeded e c w)))"
    using assms(4) b by (rule run_inactive)
  then have n: "\<exists>dberr. SyncUserData e' (UserID c) (run e' ops (snd (RefreshTokenIfNeeded e c w))) =
             (Some (NoConnection (UserID c) dberr),
              step (run e' ops (snd (RefreshTokenIfNeeded e c w))))"
    by (rule SyncUser_NoConnection)
  then have r: "refreshRequests
            (trace (snd (SyncUserData e' (UserID c) (run e' ops (snd (RefreshTokenIfNeeded e c w)))))) =
           refreshRequests (trace (run e' ops (snd (RefreshTokenIfNeeded e c w))))"
    by auto
  show ?thesis using a b n r by (intro conjI)
qed

theorem failed_refresh_deactivates_witness:
  "ExpiresAt exConn - clock rejectEnv (tick exWorld) \<le> Hour
   \<and> refresh_resp rejectEnv (Suc (tick exWorld)) (RefreshToken exConn) =
       Inl (BadStatus 400 ''invalid_grant'')
   \<and> db_fault rejectEnv (Suc (Suc (tick exWorld))) = None
   \<and> list_all syncOnly [SyncAll, SyncUser ''U123'', Disconnect ''U456'']
   \<and> fst (RefreshTokenIfNeeded rejectEnv exConn exWorld) =
       Inl (RefreshFailed ''U123'' (BadStatus 400 ''invalid_grant''))
   \<and> inactive ''U123'' (snd (RefreshTokenIfNeeded rejectEnv exConn exWorld))
   \<and> (\<exists>dberr. fst (SyncUserData calmEnv ''U123''
          (run calmEnv [SyncAll, SyncUser ''U123'', Disconnect ''U456'']
             (snd (RefreshTokenIfNeeded rejectEnv exConn exWorld)))) =
        Some (NoConnection ''U123'' dberr))"
proof -
  have h1: "ExpiresAt exConn - clock rejectEnv (tick exWorld) \<le> Hour"
    by code_simp
  have h2: "refresh_resp rejectEnv (Suc (tick exWorld)) (RefreshToken exConn) =
       Inl (BadStatus 400 ''invalid_grant'')"
    by (simp add: rejectEnv_def)
  have h3: "db_fault rejectEnv (Suc (Suc (tick exWorld))) = None"
    by (simp add: rejectEnv_def calmEnv_def)
  have h4: "\<forall>oper\<in>set [SyncAll, SyncUser ''U123'', Disconnect ''U456'']. syncOnly oper"
    by simp
  have u: "UserID exConn = ''U123''" by (simp add: exConn_def)
  have s: "list_all syncOnly [SyncAll, SyncUser ''U123'', Disconnect ''U456'']" by simp
  note t = failed_refresh_deactivates [OF h1 h2 h3 h4, of calmEnv, unfolded u]
  have e: "\<exists>dberr. fst (SyncUserData calmEnv ''U123''
          (run calmEnv [SyncAll, SyncUser ''U123'', Disconnect ''U456'']
             (snd (RefreshTokenIfNeeded rejectEnv exConn exWorld)))) =
        Some (NoConnection ''U123'' dberr)"
    using t by (metis fst_conv)
  show ?thesis using h1 h2 h3 s t e by (intro conjI) blast+
qed

theorem failed_refresh_locked_database_counterexample:
  "ExpiresAt exConn - clock lockedEnv (tick exWorld) \<le> Hour
   \<and> refresh_resp lockedEnv (Suc (tick exWorld)) (RefreshToken exConn) =
       Inl (BadStatus 400 ''invalid_grant'')
   \<and> fst (RefreshTokenIfNeeded lockedEnv exConn exWorld) =
       Inl (RefreshFailed ''U123'' (BadStatus 400 ''invalid_grant''))
   \<and> activeCount ''U123'' (snd (RefreshTokenIfNeeded lockedEnv exConn exWorld)) = 1
   \<and> fst (SyncUserData lockedEnv ''U123'' (snd (RefreshTokenIfNeeded lockedEnv exConn exWorld))) =
       Some (SyncRefreshFailed (RefreshFailed ''U123'' (BadStatus 400 ''invalid_grant'')))
   \<and> refreshRequests (trace (snd (SyncUserData lockedEnv ''U123''
          (snd (RefreshTokenIfNeeded lockedEnv exConn exWorld))))) = [''refresh-1'', ''refresh-1'']"
proof -
  have h1: "ExpiresAt exConn - clock lockedEnv (tick exWorld) \<le> Hour"
    by code_simp
  have h2: "refresh_resp lockedEnv (Suc (tick exWorld)) (RefreshToken exConn) =
       Inl (BadStatus 400 ''invalid_grant'')"
    by (simp add: lockedEnv_def rejectEnv_def)
  have a: "fst (RefreshTokenIfNeeded lockedEnv exConn exWorld) =
       Inl (RefreshFailed ''U123'' (BadStatus 400 ''invalid_grant''))"
    by code_simp
  have b: "activeCount ''U123'' (snd (RefreshTokenIfNeeded lockedEnv exConn exWorld)) = 1"
    by code_simp
  have c: "fst (SyncUserData lockedEnv ''U123'' (snd (RefreshTokenIfNeeded lockedEnv exConn exWorld))) =
       Some (SyncRefreshFailed (RefreshFailed ''U123'' (BadStatus 400 ''invalid_grant'')))"
    by code_simp
  have d: "refreshRequests (trace (snd (SyncUserData lockedEnv ''U123''
          (snd (RefreshTokenIfNeeded lockedEnv exConn exWorld))))) = [''refresh-1'', ''refresh-1'']"
    by code_simp
  show ?thesis using h1 h2 a b c d by (intro conjI)
qed

text \<open>
  Claim C2, as amended. \<open>SyncAllUsersData\<close> returns an error exactly when the listing of
  the active connections returns one, which it does when the query fails and when the
  scan of a row fails; then it synchronises nobody. Whenever the listing returns a
  list, \<open>SyncAllUsersData\<close> returns no error, and its effect is the loop body \<open>syncOne\<close>
  applied once to each listed connection, in the order of the listing, between the two
  log lines. When the query succeeds and nothing fails while its rows are read, the
  listed connections are all the active connections. The body logs the failure of
  \<open>SyncUserData\<close> and goes on; whatever it does, it leaves the connection rows of every
  other user as they were.
\<close>

theorem SyncAllUsersData_best_effort:
  "(fst (GetAllActiveWHOOPConnections e w) = Inl dberr \<longrightarrow>
      SyncAllUsersData e w = (Some (GetConnectionsFailed dberr), step w))
   \<and> (fst (GetAllActiveWHOOPConnections e w) = Inr cs \<longrightarrow>
      SyncAllUsersData e w =
        (None,
         emit (LogLine LogCompleted)
           (foldl (\<lambda>w c. syncOne e c w) (emit (LogLine (LogSyncing (length cs))) (step w)) cs)))
   \<and> (db_fault e (tick w) = Some dberr \<longrightarrow>
      fst (GetAllActiveWHOOPConnections e w) = Inl dberr)
   \<and> (db_fault e (tick w) = None \<and> rows_fault e (tick w) = Some (ScanFails k dberr)
       \<and> k < length (filter Active (whoop_connections w)) \<longrightarrow>
      fst (GetAllActiveWHOOPConnections e w) = Inl dberr)
   \<and> (db_fault e (tick w) = None \<and> rows_fault e (tick w) = None \<longrightarrow>
      fst (GetAllActiveWHOOPConnections e w) = Inr (filter Active (whoop_connections w)))
   \<and> (fst (SyncUserData e (UserID c) w) = Some err \<longrightarrow>
      syncOne e c w = emit (LogLine (LogSyncFailed (UserID c) err)) (snd (SyncUserData e (UserID c) w)))
   \<and> (fst (SyncUserData e (UserID c) w) = None \<longrightarrow>
      syncOne e c w = snd (SyncUserData e (UserID c) w))
   \<and> (v \<noteq> UserID c \<longrightarrow>
      filter (\<lambda>r. UserID r = v) (whoop_connections (syncOne e c w)) =
        filter (\<lambda>r. UserID r = v) (whoop_connections w))"
proof -
  have pair: "GetAllActiveWHOOPConnections e w = (fst (GetAllActiveWHOOPConnections e w), step w)"
    using GetAll_snd [of e w] by (simp add: prod_eq_iff)
  have ko: "SyncAllUsersData e w = (Some (GetConnectionsFailed dberr), step w)"
    if "fst (GetAllActiveWHOOPConnections e w) = Inl dberr"
    unfolding SyncAllUsersData_def by (subst pair) (simp add: that)
  have ok: "SyncAllUsersData e w =
        (None,
         emit (LogLine LogCompleted)
           (foldl (\<lambda>w c. syncOne e c w) (emit (LogLine (LogSyncing (length cs))) (step w)) cs))"
    if "fst (GetAllActiveWHOOPConnections e w) = Inr cs"
    unfolding SyncAllUsersData_def by (subst pair) (simp add: that syncEach_foldl)
  have qf: "fst (GetAllActiveWHOOPConnections e w) = Inl dberr"
    if "db_fault e (tick w) = Some dberr"
    using that by (rule GetAll_query_fails)
  have sf: "fst (GetAllActiveWHOOPConnections e w) = Inl dberr"
    if "db_fault e (tick w) = None \<and> rows_fault e (tick w) = Some (ScanFails k dberr)
       \<and> k < length (filter Active (whoop_connections w))"
    using that by (simp add: GetAll_scan_fails)
  have al: "fst (GetAllActiveWHOOPConnections e w) = Inr (filter Active (whoop_connections w))"
    if "db_fault e (tick w) = None \<and> rows_fault e (tick w) = None"
    using that by (simp add: GetAll_complete)
  have lg: "syncOne e c w =
      emit (LogLine (LogSyncFailed (UserID c) err)) (snd (SyncUserData e (UserID c) w))"
    if "fst (SyncUserData e (UserID c) w) = Some err"
    using that by (simp add: syncOne_def case_prod_beta)
  have nl: "syncOne e c w = snd (SyncUserData e (UserID c) w)"
    if "fst (SyncUserData e (UserID c) w) = None"
    using that by (simp add: syncOne_def case_prod_beta)
  have iso: "filter (\<lambda>r. UserID r = v) (whoop_connections (syncOne e c w)) =
        filter (\<lambda>r. UserID r = v) (whoop_connections w)"
    if "v \<noteq> UserID c"
    unfolding syncOne_conns
    using SyncUser_touched that by (rule touched_other_rows)
  show ?thesis using ko ok qf sf al lg nl iso by blast
qed

theorem SyncAllUsersData_best_effort_witness:
  "db_fault rejectOneEnv (tick exWorld2) = None \<and> rows_fault rejectOneEnv (tick exWorld2) = None
   \<and> fst (GetAllActiveWHOOPConnections rejectOneEnv exWorld2) = Inr [exConn, exConn2]
   \<and> SyncAllUsersData rejectOneEnv exWorld2 =
       (None,
        emit (LogLine LogCompleted)
          (syncOne rejectOneEnv exConn2
             (syncOne rejectOneEnv exConn (emit (LogLine (LogSyncing 2)) (step exWorld2)))))
   \<and> refreshRequests (trace (snd (SyncAllUsersData rejectOneEnv exWorld2))) =
       [''refresh-1'', ''refresh-4'']
   \<and> fst (SyncUserData rejectOneEnv (UserID exConn) exWorld2) =
       Some (SyncRefreshFailed (RefreshFailed ''U123'' (BadStatus 400 ''invalid_grant'')))
   \<and> syncOne rejectOneEnv exConn exWorld2 =
       emit (LogLine (LogSyncFailed ''U123''
               (SyncRefreshFailed (RefreshFailed ''U123'' (BadStatus 400 ''invalid_grant'')))))
         (snd (SyncUserData rejectOneEnv ''U123'' exWorld2))
   \<and> fst (SyncUserData rejectOneEnv (UserID exConn2) exWorld2) = None
   \<and> syncOne rejectOneEnv exConn2 exWorld2 = snd (SyncUserData rejectOneEnv ''U456'' exWorld2)
   \<and> ''U456'' \<noteq> UserID exConn
   \<and> filter (\<lambda>r. UserID r = ''U456'') (whoop_connections exWorld2) = [exConn2]
   \<and> filter (\<lambda>r. UserID r = ''U456'') (whoop_connections (syncOne rejectOneEnv exConn exWorld2)) =
       [exConn2]
   \<and> db_fault closedEnv (tick exWorld2) = Some (ErrDriver ''sql: database is closed'')
   \<and> SyncAllUsersData closedEnv exWorld2 =
       (Some (GetConnectionsFailed (ErrDriver ''sql: database is closed'')), step exWorld2)
   \<and> db_fault scanEnv
         (tick exWorld2) = None
   \<and> (1 :: nat) < length (filter Active (whoop_connections exWorld2))
   \<and> SyncAllUsersData scanEnv
         exWorld2 =
       (Some (GetConnectionsFailed (ErrDriver ''sql: Scan error'')),
        step exWorld2)"
proof -
  have h1: "db_fault rejectOneEnv (tick exWorld2) = None \<and> rows_fault rejectOneEnv (tick exWorld2) = None"
    by (simp add: rejectOneEnv_def calmEnv_def)
  have rows: "filter Active (whoop_connections exWorld2) = [exConn, exConn2]"
    by (simp add: exWorld2_def emptyWorld_def exConn_def exConn2_def)
  have h2: "db_fault closedEnv (tick exWorld2) = Some (ErrDriver ''sql: database is closed'')"
    by (simp add: closedEnv_def exWorld2_def emptyWorld_def)
  have h3: "fst (SyncUserData rejectOneEnv (UserID exConn) exWorld2) =
       Some (SyncRefreshFailed (RefreshFailed ''U123'' (BadStatus 400 ''invalid_grant'')))"
    by code_simp
  have h4: "fst (SyncUserData rejectOneEnv (UserID exConn2) exWorld2) = None"
    by code_simp
  have h5: "''U456'' \<noteq> UserID exConn" by (simp add: exConn_def)
  have h6: "db_fault scanEnv (tick exWorld2) = None
       \<and> rows_fault scanEnv (tick exWorld2) =
           Some (ScanFails 1 (ErrDriver ''sql: Scan error''))
       \<and> 1 < length (filter Active (whoop_connections exWorld2))"
    by (simp add: scanEnv_def calmEnv_def rows)
  have u: "UserID exConn = ''U123''" "UserID exConn2 = ''U456''"
    by (simp_all add: exConn_def exConn2_def)
  have l: "fst (GetAllActiveWHOOPConnections rejectOneEnv exWorld2) = Inr [exConn, exConn2]"
    using h1 SyncAllUsersData_best_effort [of rejectOneEnv exWorld2] by (simp add: rows)
  have a: "SyncAllUsersData rejectOneEnv exWorld2 =
       (None,
        emit (LogLine LogCompleted)
          (syncOne rejectOneEnv exConn2
             (syncOne rejectOneEnv exConn (emit (LogLine (LogSyncing 2)) (step exWorld2)))))"
    using l SyncAllUsersData_best_effort [of rejectOneEnv exWorld2 _ "[exConn, exConn2]"]
    by (simp add: numeral_2_eq_2)
  have rr: "refreshRequests (trace (snd (SyncAllUsersData rejectOneEnv exWorld2))) =
       [''refresh-1'', ''refresh-4'']"
    by code_simp
  have b: "SyncAllUsersData closedEnv exWorld2 =
       (Some (GetConnectionsFailed (ErrDriver ''sql: database is closed'')), step exWorld2)"
    using h2 SyncAllUsersData_best_effort
      [of closedEnv exWorld2 "ErrDriver ''sql: database is closed''"]
    by simp
  have c: "syncOne rejectOneEnv exConn exWorld2 =
       emit (LogLine (LogSyncFailed ''U123''
               (SyncRefreshFailed (RefreshFailed ''U123'' (BadStatus 400 ''invalid_grant'')))))
         (snd (SyncUserData rejectOneEnv ''U123'' exWorld2))"
    using h3 SyncAllUsersData_best_effort [of rejectOneEnv exWorld2 _ _ _ exConn] by (simp add: u)
  have d: "syncOne rejectOneEnv exConn2 exWorld2 = snd (SyncUserData rejectOneEnv ''U456'' exWorld2)"
    using h4 SyncAllUsersData_best_effort [of rejectOneEnv exWorld2 _ _ _ exConn2] by (simp add: u)
  have f0: "filter (\<lambda>r. UserID r = ''U456'') (whoop_connections exWorld2) = [exConn2]"
    by (simp add: exWorld2_def emptyWorld_def exConn_def exConn2_def)
  have "filter (\<lambda>r. UserID r = ''U456'') (whoop_connections (syncOne rejectOneEnv exConn exWorld2)) =
       filter (\<lambda>r. UserID r = ''U456'') (whoop_connections exWorld2)"
    using h5 SyncAllUsersData_best_effort [of rejectOneEnv exWorld2 _ _ _ exConn _ "''U456''"]
    by blast
  then have f: "filter (\<lambda>r. UserID r = ''U456'')
        (whoop_connections (syncOne rejectOneEnv exConn exWorld2)) = [exConn2]"
    by (simp only: f0)
  have "fst (GetAllActiveWHOOPConnections scanEnv exWorld2) =
       Inl (ErrDriver ''sql: Scan error'')"
    using h6 SyncAllUsersData_best_effort
      [of scanEnv exWorld2 "ErrDriver ''sql: Scan error''" _ 1]
    by blast
  then have g: "SyncAllUsersData scanEnv exWorld2 =
       (Some (GetConnectionsFailed (ErrDriver ''sql: Scan error'')),
        step exWorld2)"
    using SyncAllUsersData_best_effort
      [of scanEnv exWorld2 "ErrDriver ''sql: Scan error''"]
    by blast
  show ?thesis
    using h1 l a rr h3 c h4 d h5 f0 f h2 b h6 g by (intro conjI) blast+
qed

theorem SyncAllUsersData_returns_error_counterexample:
  "activeCount ''U123'' exWorld2 = 1 \<and> activeCount ''U456'' exWorld2 = 1
   \<and> db_fault closedEnv (tick exWorld2) = Some (ErrDriver ''sql: database is closed'')
   \<and> fst (SyncAllUsersData closedEnv exWorld2) =
       Some (GetConnectionsFailed (ErrDriver ''sql: database is closed''))
   \<and> fst (SyncAllUsersData closedEnv exWorld2) \<noteq> None
   \<and> trace (snd (SyncAllUsersData closedEnv exWorld2)) = []"
proof -
  have a: "activeCount ''U123'' exWorld2 = 1" "activeCount ''U456'' exWorld2 = 1" by code_simp+
  have h: "db_fault closedEnv (tick exWorld2) = Some (ErrDriver ''sql: database is closed'')"
    by (simp add: closedEnv_def exWorld2_def emptyWorld_def)
  have b: "fst (SyncAllUsersData closedEnv exWorld2) =
       Some (GetConnectionsFailed (ErrDriver ''sql: database is closed''))"
    by code_simp
  have c: "trace (snd (SyncAllUsersData closedEnv exWorld2)) = []" by code_simp
  show ?thesis using a h b c by simp
qed

text \<open>
  Claim C3. Let \<open>now\<close> be the clock reading of the call. When the expiry is at most one
  hour after \<open>now\<close>, \<open>RefreshTokenIfNeeded\<close> adds exactly one refresh request, for the
  connection's refresh token, to the requests sent so far (whatever the provider
  answers); on a successful answer, stored by a working database, it returns the
  connection with the new tokens and expiry. When the expiry is more than one hour
  after \<open>now\<close>, it returns the connection as it is and does nothing but read the clock.
\<close>

theorem RefreshTokenIfNeeded_refreshes_once:
  "(ExpiresAt c - clock e (tick w) \<le> Hour \<longrightarrow>
      refreshRequests (trace (snd (RefreshTokenIfNeeded e c w))) =
        refreshRequests (trace w) @ [RefreshToken c])
   \<and> (ExpiresAt c - clock e (tick w) \<le> Hour
        \<and> refresh_resp e (Suc (tick w)) (RefreshToken c) = Inr tokenResp
        \<and> db_fault e (Suc (Suc (Suc (tick w)))) = None \<longrightarrow>
      fst (RefreshTokenIfNeeded e c w) =
        Inr (c\<lparr> AccessToken := tok_AccessToken tokenResp,
                RefreshToken := tok_RefreshToken tokenResp,
                ExpiresAt := time_Add (clock e (Suc (Suc (tick w))))
                               (wrap64 (tok_ExpiresIn tokenResp * Second)) \<rparr>))
   \<and> (ExpiresAt c - clock e (tick w) > Hour \<longrightarrow>
      RefreshTokenIfNeeded e c w = (Inr c, step w)
      \<and> refreshRequests (trace (snd (RefreshTokenIfNeeded e c w))) = refreshRequests (trace w))"
  using Refresh_near [of c e w] Refresh_fst_ok [of c e w tokenResp] Refresh_far [of c e w]
  by simp

theorem RefreshTokenIfNeeded_refreshes_once_witness:
  "ExpiresAt exConn - clock calmEnv (tick exWorld) \<le> Hour
   \<and> refreshRequests (trace (snd (RefreshTokenIfNeeded calmEnv exConn exWorld))) = [''refresh-1'']
   \<and> ExpiresAt (exConn\<lparr>ExpiresAt := 2 * Hour\<rparr>) - clock calmEnv (tick exWorld) > Hour
   \<and> RefreshTokenIfNeeded calmEnv (exConn\<lparr>ExpiresAt := 2 * Hour\<rparr>) exWorld =
       (Inr (exConn\<lparr>ExpiresAt := 2 * Hour\<rparr>), step exWorld)"
proof -
  have near: "ExpiresAt exConn - clock calmEnv (tick exWorld) \<le> Hour"
    by (simp add: exConn_def calmEnv_def exWorld_def emptyWorld_def Hour_def Second_def)
  have far: "ExpiresAt (exConn\<lparr>ExpiresAt := 2 * Hour\<rparr>) - clock calmEnv (tick exWorld) > Hour"
    by (simp add: calmEnv_def exWorld_def emptyWorld_def Hour_def Second_def)
  have t: "refreshRequests (trace exWorld) = []" "RefreshToken exConn = ''refresh-1''"
    by (simp_all add: exWorld_def emptyWorld_def exConn_def)
  show ?thesis
    using near far t
      RefreshTokenIfNeeded_refreshes_once [of exConn calmEnv exWorld]
      RefreshTokenIfNeeded_refreshes_once [of "exConn\<lparr>ExpiresAt := 2 * Hour\<rparr>" calmEnv exWorld]
    by simp
qed

text \<open>
  Claim C4, as amended. For a sleep record whose reported score is 0 and whose
  efficiency percentage is positive, the score of the row that \<open>syncSleepData\<close> builds,
  and that a working database stores, is the conversion to int, which drops the
  fraction, of the float64 value of the three-branch formula, where efficiency is the
  percentage / 100, the duration in hours is (light + slow-wave + REM) / 3.6e6 and
  every operation is a float64 operation. The stored duration is that sum of the three
  stages.
\<close>

theorem sleep_score_fallback:
  assumes "sd_SleepScore sleep = 0" and "sd_SleepEfficiencyPercentage sleep > 0"
  shows "slp_Score (sleepModel oor connection sleep now) =
           go_int oor
             (if durationHours sleep \<ge> 7.5 \<and> efficiencyFactor sleep \<ge> fl64 0.85
              then fadd 75 (fmul (fsub (efficiencyFactor sleep) (fl64 0.85)) 100)
              else if durationHours sleep \<ge> 6.5 \<and> efficiencyFactor sleep \<ge> 0.75
              then fadd 60 (fmul (fsub (efficiencyFactor sleep) 0.75) 150)
              else fmul (efficiencyFactor sleep) 60)
       \<and> efficiencyFactor sleep = fdiv (sd_SleepEfficiencyPercentage sleep) 100
       \<and> durationHours sleep = fdiv (float64_of_int (slp_DurationMS (sleepModel oor connection sleep now))) 3600000
       \<and> slp_DurationMS (sleepModel oor connection sleep now) =
           wrap64 (wrap64 (sd_TotalLightSleepMS sleep + sd_TotalSlowWaveSleepMS sleep) +
                   sd_TotalRemSleepMS sleep)
       \<and> (- (2 ^ 63) < x \<and> x < 2 ^ 63 \<longrightarrow> go_int oor x = (if 0 \<le> x then \<lfloor>x\<rfloor> else \<lceil>x\<rceil>))
       \<and> (db_fault e (Suc (tick w)) = None \<longrightarrow>
            slp_Score (last (whoop_sleep (storeSleep e connection [sleep] w))) =
              slp_Score (sleepModel (conv_oor e) connection sleep now))"
proof -
  have sc: "slp_Score (sleepModel oor connection sleep now) =
           go_int oor
             (if durationHours sleep \<ge> 7.5 \<and> efficiencyFactor sleep \<ge> fl64 0.85
              then fadd 75 (fmul (fsub (efficiencyFactor sleep) (fl64 0.85)) 100)
              else if durationHours sleep \<ge> 6.5 \<and> efficiencyFactor sleep \<ge> 0.75
              then fadd 60 (fmul (fsub (efficiencyFactor sleep) 0.75) 150)
              else fmul (efficiencyFactor sleep) 60)"
    using assms by (simp add: sleepModel_def sleepScore_def)
  have du: "durationHours sleep = fdiv (float64_of_int (slp_DurationMS (sleepModel oor connection sleep now))) 3600000"
    by (simp add: durationHours_def sleepModel_def)
  have ms: "slp_DurationMS (sleepModel oor connection sleep now) =
           wrap64 (wrap64 (sd_TotalLightSleepMS sleep + sd_TotalSlowWaveSleepMS sleep) +
                   sd_TotalRemSleepMS sleep)"
    by (simp add: sleepModel_def totalSleepMS_def)
  have gi: "go_int oor x = (if 0 \<le> x then \<lfloor>x\<rfloor> else \<lceil>x\<rceil>)"
    if "- (2 ^ 63) < x \<and> x < 2 ^ 63"
  proof (cases "0 \<le> x")
    case True
    have "\<lfloor>x\<rfloor> < 2 ^ 63" using that by (simp add: floor_less_iff)
    moreover have "0 \<le> \<lfloor>x\<rfloor>" using True by simp
    ultimately show ?thesis using True by (simp add: go_int_def Let_def)
  next
    case False
    have "- (2 ^ 63) \<le> \<lceil>x\<rceil>"
    proof -
      have "(of_int (- (2 ^ 63)) :: rat) \<le> x" using that by simp
      then have "- (2 ^ 63) \<le> \<lfloor>x\<rfloor>" by (simp only: le_floor_iff)
      also have "\<lfloor>x\<rfloor> \<le> \<lceil>x\<rceil>" by (rule floor_le_ceiling)
      finally show ?thesis .
    qed
    moreover have "\<lceil>x\<rceil> \<le> 0" using False by (simp add: ceiling_le_iff)
    ultimately show ?thesis using False by (simp add: go_int_def Let_def)
  qed
  have st: "slp_Score (last (whoop_sleep (storeSleep e connection [sleep] w))) =
              slp_Score (sleepModel (conv_oor e) connection sleep now)"
    if "db_fault e (Suc (tick w)) = None"
    unfolding storeSleep_single [OF that] by (simp add: sleepModel_def)
  show ?thesis using sc du ms gi st by (simp add: efficiencyFactor_def)
qed

theorem sleep_score_fallback_witness:
  "sd_SleepScore (exSleep 90) = 0 \<and> sd_SleepEfficiencyPercentage (exSleep 90) > 0
   \<and> efficiencyFactor (exSleep 90) = fl64 0.9
   \<and> durationHours (exSleep 90) = 8
   \<and> fadd 75 (fmul (fsub (efficiencyFactor (exSleep 90)) (fl64 0.85)) 100) = 80
   \<and> slp_Score (sleepModel (conv_oor calmEnv) exConn (exSleep 90) 0) = 80
   \<and> db_fault calmEnv (Suc (tick emptyWorld)) = None
   \<and> slp_Score (last (whoop_sleep (storeSleep calmEnv exConn [exSleep 90] emptyWorld))) = 80"
proof -
  have h1: "sd_SleepScore (exSleep 90) = 0" by (simp add: exSleep_def)
  have h2: "sd_SleepEfficiencyPercentage (exSleep 90) > 0" by (simp add: exSleep_def)
  have h3: "db_fault calmEnv (Suc (tick emptyWorld)) = None" by (simp add: calmEnv_def)
  have e: "efficiencyFactor (exSleep 90) = fl64 0.9" by code_simp
  have d: "durationHours (exSleep 90) = 8" by code_simp
  have f: "fadd 75 (fmul (fsub (efficiencyFactor (exSleep 90)) (fl64 0.85)) 100) = 80" by code_simp
  have c1: "durationHours (exSleep 90) \<ge> 7.5" by code_simp
  have c2: "efficiencyFactor (exSleep 90) \<ge> fl64 0.85" by code_simp
  have g: "go_int (conv_oor calmEnv) 80 = 80" by code_simp
  note t = sleep_score_fallback [OF h1 h2, of "conv_oor calmEnv" exConn 0 _ calmEnv emptyWorld]
  have s: "slp_Score (sleepModel (conv_oor calmEnv) exConn (exSleep 90) 0) = 80"
    using t c1 c2 f g by simp
  have "slp_Score (last (whoop_sleep (storeSleep calmEnv exConn [exSleep 90] emptyWorld))) =
          slp_Score (sleepModel (conv_oor calmEnv) exConn (exSleep 90) 0)"
    using t h3 by blast
  then have l: "slp_Score (last (whoop_sleep (storeSleep calmEnv exConn [exSleep 90] emptyWorld))) = 80"
    using s by simp
  show ?thesis using h1 h2 e d f s h3 l by (intro conjI)
qed

theorem sleep_score_truncated_counterexample:
  "sd_SleepScore (exSleep 90.5) = 0 \<and> sd_SleepEfficiencyPercentage (exSleep 90.5) > 0
   \<and> durationHours (exSleep 90.5) = 8
   \<and> efficiencyFactor (exSleep 90.5) \<ge> fl64 0.85
   \<and> fadd 75 (fmul (fsub (efficiencyFactor (exSleep 90.5)) (fl64 0.85)) 100) = 80.5
   \<and> slp_Score (sleepModel (conv_oor calmEnv) exConn (exSleep 90.5) 0) = 80
   \<and> rat_of_int (slp_Score (sleepModel (conv_oor calmEnv) exConn (exSleep 90.5) 0)) \<noteq>
       fadd 75 (fmul (fsub (efficiencyFactor (exSleep 90.5)) (fl64 0.85)) 100)"
proof -
  have h1: "sd_SleepScore (exSleep 90.5) = 0" by (simp add: exSleep_def)
  have h2: "sd_SleepEfficiencyPercentage (exSleep 90.5) > 0" by (simp add: exSleep_def)
  have d: "durationHours (exSleep 90.5) = 8" by code_simp
  have c: "efficiencyFactor (exSleep 90.5) \<ge> fl64 0.85" by code_simp
  have f: "fadd 75 (fmul (fsub (efficiencyFactor (exSleep 90.5)) (fl64 0.85)) 100) = 80.5"
    by code_simp
  have s: "slp_Score (sleepModel (conv_oor calmEnv) exConn (exSleep 90.5) 0) = 80" by code_simp
  have n: "rat_of_int (slp_Score (sleepModel (conv_oor calmEnv) exConn (exSleep 90.5) 0)) \<noteq>
       fadd 75 (fmul (fsub (efficiencyFactor (exSleep 90.5)) (fl64 0.85)) 100)"
    unfolding s f by simp
  show ?thesis using h1 h2 d c f s n by (intro conjI)
qed

text \<open>
  Claim C6, as amended. The state that \<open>GetAuthURL\<close> puts into the URL is the user id,
  a colon and the 32 lower-case hex digits of the sixteen random bytes. For a user id
  that is not empty and holds no colon, the prefix that \<open>HandleOAuthCallback\<close> cuts
  from that state is the user id again, and with a code that the provider accepts, a
  profile and a working database the callback returns an active connection of that
  user id.
\<close>

theorem state_roundtrip:
  assumes "userID \<noteq> []" and "CHR '':'' \<notin> set userID"
  shows "fst (authState e userID w) =
           userID @ '':'' @ EncodeToString (map (\<lambda>i. random e (tick w) i mod 256) [0..<16])
       \<and> length (EncodeToString (map (\<lambda>i. random e (tick w) i mod 256) [0..<16])) = 32
       \<and> set (EncodeToString (map (\<lambda>i. random e (tick w) i mod 256) [0..<16]))
            \<subseteq> set ''0123456789abcdef''
       \<and> GetAuthURL c e userID w = (Client_GetAuthURL c (fst (authState e userID w)), step w)
       \<and> state_userID (fst (authState e userID w)) = userID
       \<and> (exchange_resp e' (tick w') code = Inr tokenResp
            \<and> profile_resp e' (Suc (tick w')) (tok_AccessToken tokenResp) = Inr profile
            \<and> db_fault e' (Suc (Suc (Suc (Suc (tick w'))))) = None \<longrightarrow>
          (\<exists>connection. fst (HandleOAuthCallback e' code (fst (authState e userID w)) w') =
                           Inr connection
             \<and> UserID connection = userID \<and> Active connection))"
proof -
  define rnd where "rnd = EncodeToString (map (\<lambda>i. random e (tick w) i mod 256) [0..<16])"
  have st: "authState e userID w = (userID @ '':'' @ rnd, step w)"
    by (simp add: authState_def GenerateState_def rnd_def)
  have len: "length rnd = 32" by (simp add: rnd_def length_EncodeToString)
  have hex: "set rnd \<subseteq> set ''0123456789abcdef''"
    unfolding rnd_def by (rule set_EncodeToString)
  have url: "GetAuthURL c e userID w = (Client_GetAuthURL c (fst (authState e userID w)), step w)"
    by (simp add: GetAuthURL_def st)
  have rt: "state_userID (userID @ '':'' @ rnd) = userID"
    using assms(2) by (rule state_userID_prefix)
  have cb: "\<exists>connection. fst (HandleOAuthCallback e' code (userID @ '':'' @ rnd) w') = Inr connection
             \<and> UserID connection = userID \<and> Active connection"
    if h: "exchange_resp e' (tick w') code = Inr tokenResp"
          "profile_resp e' (Suc (tick w')) (tok_AccessToken tokenResp) = Inr profile"
          "db_fault e' (Suc (Suc (Suc (Suc (tick w'))))) = None"
  proof -
    have l: "10 \<le> length (userID @ '':'' @ rnd)" using len by simp
    have n: "state_userID (userID @ '':'' @ rnd) \<noteq> []" using rt assms(1) by simp
    show ?thesis
      unfolding Callback_ok [OF l n h] using rt by simp
  qed
  show ?thesis
    using st len hex url rt cb unfolding rnd_def [symmetric] by simp
qed

theorem state_roundtrip_witness:
  "''U123'' \<noteq> [] \<and> CHR '':'' \<notin> set ''U123''
   \<and> fst (authState calmEnv ''U123'' emptyWorld) = ''U123:abababababababababababababababab''
   \<and> state_userID (fst (authState calmEnv ''U123'' emptyWorld)) = ''U123''
   \<and> exchange_resp calmEnv (tick emptyWorld) ''code'' = Inr exToken
   \<and> profile_resp calmEnv (Suc (tick emptyWorld)) (tok_AccessToken exToken) = Inr exProfile
   \<and> db_fault calmEnv (Suc (Suc (Suc (Suc (tick emptyWorld))))) = None
   \<and> (\<exists>connection.
         fst (HandleOAuthCallback calmEnv ''code'' (fst (authState calmEnv ''U123'' emptyWorld))
                emptyWorld) = Inr connection
         \<and> UserID connection = ''U123'' \<and> Active connection)"
proof -
  have h1: "''U123'' \<noteq> []" by simp
  have h2: "CHR '':'' \<notin> set ''U123''" by simp
  have h3: "exchange_resp calmEnv (tick emptyWorld) ''code'' = Inr exToken"
    by (simp add: calmEnv_def)
  have h4: "profile_resp calmEnv (Suc (tick emptyWorld)) (tok_AccessToken exToken) = Inr exProfile"
    by (simp add: calmEnv_def)
  have h5: "db_fault calmEnv (Suc (Suc (Suc (Suc (tick emptyWorld))))) = None"
    by (simp add: calmEnv_def)
  have st: "fst (authState calmEnv ''U123'' emptyWorld) = ''U123:abababababababababababababababab''"
    by code_simp
  note t = state_roundtrip [OF h1 h2, of calmEnv emptyWorld _ calmEnv emptyWorld "''code''" exToken exProfile]
  have a: "state_userID (fst (authState calmEnv ''U123'' emptyWorld)) = ''U123''"
    using t by blast
  have b: "\<exists>connection.
         fst (HandleOAuthCallback calmEnv ''code'' (fst (authState calmEnv ''U123'' emptyWorld))
                emptyWorld) = Inr connection
         \<and> UserID connection = ''U123'' \<and> Active connection"
    using t h3 h4 h5 by blast
  show ?thesis using h1 h2 st a h3 h4 h5 b by (intro conjI)
qed

theorem empty_user_id_counterexample:
  "CHR '':'' \<notin> set ('''' :: string)
   \<and> fst (authState calmEnv '''' emptyWorld) = '':abababababababababababababababab''
   \<and> exchange_resp calmEnv (tick emptyWorld) ''code'' = Inr exToken
   \<and> fst (HandleOAuthCallback calmEnv ''code'' (fst (authState calmEnv '''' emptyWorld)) emptyWorld) =
       Inl InvalidStateFormat"
proof -
  have a: "CHR '':'' \<notin> set ('''' :: string)" by simp
  have b: "fst (authState calmEnv '''' emptyWorld) = '':abababababababababababababababab''"
    by code_simp
  have c: "exchange_resp calmEnv (tick emptyWorld) ''code'' = Inr exToken"
    by (simp add: calmEnv_def)
  have d: "fst (HandleOAuthCallback calmEnv ''code'' (fst (authState calmEnv '''' emptyWorld)) emptyWorld) =
       Inl InvalidStateFormat"
    by code_simp
  show ?thesis using a b c d by (intro conjI)
qed

text \<open>
  Claim C9, as amended. From a connection table without two rows of one user, whatever
  sequence of callbacks, refreshes, synchronisations and disconnections runs against
  whatever outside, the table never holds two rows of one user, and so never more than
  one active connection of a user.
\<close>

theorem at_most_one_active_connection:
  assumes "unique_users w"
  shows "unique_users (run e ops w) \<and> activeCount u (run e ops w) \<le> 1"
proof -
  have a: "unique_users (run e ops w)" using assms by (rule run_unique)
  have "activeCount u (run e ops w) \<le> 1"
    unfolding activeCount_def
    using a [unfolded unique_users_def] by (rule unique_users_count)
  then show ?thesis using a by simp
qed

theorem at_most_one_active_connection_witness:
  "unique_users emptyWorld
   \<and> unique_users (run calmEnv
        [Connect ''c1'' ''U123:0123456789'', Connect ''c2'' ''U123:abcdefghij'', SyncAll,
         Disconnect ''U123'', Connect ''c3'' ''U123:0123456789''] emptyWorld)
   \<and> activeCount ''U123'' (run calmEnv
        [Connect ''c1'' ''U123:0123456789'', Connect ''c2'' ''U123:abcdefghij'', SyncAll,
         Disconnect ''U123'', Connect ''c3'' ''U123:0123456789''] emptyWorld) \<le> 1"
proof -
  have h: "unique_users emptyWorld" by (simp add: unique_users_def emptyWorld_def)
  show ?thesis
    using h at_most_one_active_connection [OF h, of calmEnv
        "[Connect ''c1'' ''U123:0123456789'', Connect ''c2'' ''U123:abcdefghij'', SyncAll,
          Disconnect ''U123'', Connect ''c3'' ''U123:0123456789'']" "''U123''"]
    by simp
qed

theorem no_active_connection_counterexample:
  "activeCount ''U123'' emptyWorld = 0
   \<and> activeCount ''U123''
        (run calmEnv [Connect ''code'' ''U123:0123456789'', Disconnect ''U123''] emptyWorld) = 0
   \<and> activeCount ''U123''
        (run calmEnv [Connect ''code'' ''U123:0123456789'', Disconnect ''U123''] emptyWorld) \<noteq> 1"
proof -
  have a: "activeCount ''U123'' emptyWorld = 0" by code_simp
  have b: "activeCount ''U123''
        (run calmEnv [Connect ''code'' ''U123:0123456789'', Disconnect ''U123''] emptyWorld) = 0"
    by code_simp
  show ?thesis using a b by simp
qed

end
